theory Spec2Isabelle
  imports Main "HOL-Library.Sublist"
begin

section \<open>Go values\<close>

text \<open>
  Go strings are byte sequences; \<open>string\<close> is a list of 8-bit characters, so a
  non-ASCII literal of the source is written as its UTF-8 bytes. Go's \<open>int\<close> and
  \<open>int64\<close> are modelled by \<open>int\<close>: the program does no arithmetic on them.
\<close>

text \<open>The warning sign that opens several comments of the source (U+26A0 U+FE0F).\<close>

definition warning_sign :: string where
  "warning_sign = [CHR 0xE2, CHR 0x9A, CHR 0xA0, CHR 0xEF, CHR 0xB8, CHR 0x8F]"

text \<open>The verb \<open>%d\<close> of \<open>fmt\<close>: an integer in decimal.\<close>

definition digit :: "nat \<Rightarrow> char" where
  "digit n = ''0123456789'' ! n"

fun utoa :: "nat \<Rightarrow> string" where
  "utoa n = (if n < 10 then [digit n] else utoa (n div 10) @ [digit (n mod 10)])"

declare utoa.simps [simp del]

definition itoa :: "int \<Rightarrow> string" where
  "itoa i = (if i < 0 then CHR ''-'' # utoa (nat (- i)) else utoa (nat i))"

text \<open>\<open>strings.Join\<close>.\<close>

fun Join :: "string list \<Rightarrow> string \<Rightarrow> string" where
  "Join [] sep = []"
| "Join [x] sep = x"
| "Join (x # y # ys) sep = x @ sep @ Join (y # ys) sep"

text \<open>The verb \<open>%v\<close> of \<open>fmt\<close> on a slice of strings.\<close>

definition fmt_v :: "string list \<Rightarrow> string" where
  "fmt_v xs = ''['' @ Join xs '' '' @ '']''"

text \<open>
  \<open>strings.ReplaceAll s old new\<close>: the non-overlapping occurrences of \<open>old\<close>, from
  the left. Every call of the program passes a non-empty literal for \<open>old\<close>; Go's
  special case for an empty \<open>old\<close> is not modelled.
\<close>

function ReplaceAll :: "string \<Rightarrow> string \<Rightarrow> string \<Rightarrow> string" where
  "ReplaceAll [] old new = []"
| "ReplaceAll (c # cs) old new =
     (if old \<noteq> [] \<and> prefix old (c # cs)
      then new @ ReplaceAll (drop (length old) (c # cs)) old new
      else c # ReplaceAll cs old new)"
  by pat_completeness auto
termination
  by (relation "measure (\<lambda>(s, old, new). length s)") (auto simp: neq_Nil_conv)

text \<open>\<open>strings.Fields\<close> on ASCII white space.\<close>

definition isSpace :: "char \<Rightarrow> bool" where
  "isSpace c = (c \<in> set [CHR '' '', CHR 0x09, CHR 0x0A, CHR 0x0B, CHR 0x0C, CHR 0x0D])"

fun Fields_from :: "string \<Rightarrow> string \<Rightarrow> string list" where
  "Fields_from w [] = (if w = [] then [] else [w])"
| "Fields_from w (c # cs) =
     (if isSpace c then (if w = [] then Fields_from [] cs else w # Fields_from [] cs)
      else Fields_from (w @ [c]) cs)"

definition Fields :: "string \<Rightarrow> string list" where
  "Fields s = Fields_from [] s"

text \<open>\<open>slices.Contains\<close> and \<open>slices.DeleteFunc\<close>.\<close>

definition Contains :: "'a list \<Rightarrow> 'a \<Rightarrow> bool" where
  "Contains xs x = (x \<in> set xs)"

definition DeleteFunc :: "'a list \<Rightarrow> ('a \<Rightarrow> bool) \<Rightarrow> 'a list" where
  "DeleteFunc xs del = filter (\<lambda>x. \<not> del x) xs"

text \<open>
  A compiled \<open>regexp.Regexp\<close> is given by what \<open>FindStringSubmatch\<close> returns: the
  empty list (nil) when the string does not match, else the matched text followed by
  the text of each capturing group. \<open>MatchString\<close> holds exactly when there is a match.
\<close>

datatype Regexp = Regexp (FindStringSubmatch: "string \<Rightarrow> string list")

definition MatchString :: "Regexp \<Rightarrow> string \<Rightarrow> bool" where
  "MatchString re s = (FindStringSubmatch re s \<noteq> [])"

section \<open>Errors\<close>

text \<open>
  Go error values. \<open>Opaque\<close> is an error of a library (transport, \<open>os/exec\<close>), by its
  message; \<open>New\<close> is \<open>fmt.Errorf\<close> without \<open>%w\<close>; \<open>Wrap\<close> is \<open>fmt.Errorf\<close> with a
  formatted prefix and \<open>%w\<close>; \<open>ErrGitOp\<close> is the struct of \<open>git/error.go\<close> with its
  fields \<open>Op\<close>, \<open>Err\<close> and \<open>Status\<close>.
\<close>

datatype error =
    Opaque string
  | New string
  | Wrap string error
  | ErrGitOp string error int

text \<open>\<open>IsConflictErr\<close>: \<open>errors.As\<close> finds the first \<open>ErrGitOp\<close> of the chain.\<close>

fun IsConflictErr :: "error \<Rightarrow> bool" where
  "IsConflictErr (Opaque m) = False"
| "IsConflictErr (New m) = False"
| "IsConflictErr (Wrap m e) = IsConflictErr e"
| "IsConflictErr (ErrGitOp op e status) = (status = 1)"

section \<open>Data of the code host\<close>

text \<open>
  The structs of \<open>go-github\<close>, as the program reads them through their getters (a nil
  pointer field reads as the zero value).
\<close>

record CommitFile =
  cf_Filename :: string
  cf_Additions :: int
  cf_Deletions :: int
  cf_Changes :: int
  cf_Patch :: string

record RepositoryCommit =
  rc_SHA :: string
  rc_Parents :: "string list"
  rc_Files :: "CommitFile list"

record PullRequest =
  pr_Number :: int
  pr_Merged :: bool
  pr_MergeCommitSHA :: string
  pr_Commits :: int
  pr_ChangedFiles :: int
  pr_Labels :: "string list"
  pr_Title :: string
  pr_Body :: string
  pr_Draft :: bool

record NewPullRequest =
  np_Title :: string
  np_Head :: string
  np_Base :: string
  np_Body :: string
  np_MaintainerCanModify :: bool
  np_Draft :: bool

datatype MergeKind = MergeInvalid | Squash | MergeCommit | Rebase

section \<open>The outside world\<close>

text \<open>
  Every request to the code host and every \<open>git\<close> process the program starts is a
  \<open>call\<close>; the state keeps the calls made so far, in order. The answers come from a
  \<open>host\<close>: each answer is a function of the calls made so far, the one being answered
  last, so that the same request may be answered differently at different times.
\<close>

datatype call =
    PullRequests_Get string string int
  | Repositories_GetCommit string string string
  | PullRequests_ListFiles string string int int
  | PullRequests_ListCommits string string int int
  | PullRequests_Create string string NewPullRequest
  | Issues_CreateComment string string int string
  | Issues_AddLabelsToIssue string string int "string list"
  | DisPatchPrCreatedEvent PullRequest
  | Exec_git "string list"

text \<open>
  What \<open>os/exec\<close> reports of a \<open>git\<close> process: it ran and exited with status 0
  (\<open>Ran\<close>, with its standard output); it exited otherwise or was killed at the time
  limit (\<open>ExitError\<close>, with the error's message and \<open>ExitCode()\<close>); or it did not
  start (\<open>NotRun\<close>).
\<close>

datatype proc = Ran string | ExitError string int | NotRun string

record host =
  event_pr_number :: "error + int"
  ctx_Repo :: "string \<times> string"
  get_pr :: "call list \<Rightarrow> error + int \<times> PullRequest"
  get_commit :: "call list \<Rightarrow> error + int \<times> RepositoryCommit"
  list_files :: "call list \<Rightarrow> error + CommitFile list \<times> int"
  list_commits :: "call list \<Rightarrow> error + RepositoryCommit list \<times> int"
  create_pr :: "call list \<Rightarrow> error + int \<times> PullRequest"
  create_comment :: "call list \<Rightarrow> error + int"
  add_labels :: "call list \<Rightarrow> error + int"
  dispatch :: "call list \<Rightarrow> error option"
  git_proc :: "call list \<Rightarrow> proc"

datatype level = Info | Warning | Error

datatype arg = S string | I int | E error | L "string list" | K MergeKind

text \<open>
  A log line of \<open>githubactions\<close> is kept as its level, its format string and its
  arguments. Where the source has a verb between single quotes, the format string here
  has it between \<open><\<close> and \<open>>\<close>.
\<close>

record state =
  calls :: "call list"
  logs :: "(level \<times> string \<times> arg list) list"
  commitsPRCache :: "int \<rightharpoonup> RepositoryCommit list"

definition invoke :: "call \<Rightarrow> state \<Rightarrow> state" where
  "invoke c s = s\<lparr>calls := calls s @ [c]\<rparr>"

definition logf :: "level \<Rightarrow> string \<Rightarrow> arg list \<Rightarrow> state \<Rightarrow> state" where
  "logf lv fmt args s = s\<lparr>logs := logs s @ [(lv, fmt, args)]\<rparr>"

definition unexpected_status :: "int \<Rightarrow> error" where
  "unexpected_status code = New (''unexpected status code '' @ itoa code)"

section \<open>Package github\<close>

text \<open>
  \<open>IsMergeCommit\<close> counts the parents of a commit; \<open>MergeKind\<close> applies it to the
  commit that \<open>GetCommit\<close> returns.
\<close>

definition IsMergeCommit :: "RepositoryCommit \<Rightarrow> bool" where
  "IsMergeCommit commit = (length (rc_Parents commit) > 1)"

definition compareCommitFile :: "CommitFile \<Rightarrow> CommitFile \<Rightarrow> bool" where
  "compareCommitFile a b =
     (if cf_Filename a \<noteq> cf_Filename b then False
      else if cf_Additions a \<noteq> cf_Additions b then False
      else if cf_Deletions a \<noteq> cf_Deletions b then False
      else if cf_Changes a \<noteq> cf_Changes b then False
      else if cf_Patch a \<noteq> cf_Patch b then False
      else True)"

definition GetPR :: "host \<Rightarrow> int \<Rightarrow> state \<Rightarrow> (error + PullRequest) \<times> state" where
  "GetPR h prNumber s =
     (let (owner, repo) = ctx_Repo h;
          s1 = logf Info ''Retrieving PR #%d from %s/%s'' [I prNumber, S owner, S repo] s;
          s2 = invoke (PullRequests_Get owner repo prNumber) s1
      in case get_pr h (calls s2) of
           Inl err \<Rightarrow> (Inl err, s2)
         | Inr (code, pr) \<Rightarrow>
             if code \<noteq> 200 then (Inl (unexpected_status code), s2) else (Inr pr, s2))"

definition GetCommit :: "host \<Rightarrow> string \<Rightarrow> state \<Rightarrow> (error + RepositoryCommit) \<times> state" where
  "GetCommit h sha s =
     (let (owner, repo) = ctx_Repo h;
          s1 = logf Info ''Retrieving commit %s from %s/%s'' [S sha, S owner, S repo] s;
          s2 = invoke (Repositories_GetCommit owner repo sha) s1
      in case get_commit h (calls s2) of
           Inl err \<Rightarrow> (Inl err, s2)
         | Inr (code, commit) \<Rightarrow>
             if code \<noteq> 200 then (Inl (unexpected_status code), s2) else (Inr commit, s2))"

text \<open>
  The paging loop of \<open>ListFiles\<close>. The loop ends when the host answers with an error
  or with \<open>NextPage = 0\<close>; a host that never does keeps it running, and the result is
  \<open>None\<close>.
\<close>

partial_function (option) ListFiles_loop ::
  "host \<Rightarrow> string \<Rightarrow> string \<Rightarrow> int \<Rightarrow> int \<Rightarrow> CommitFile list \<Rightarrow> state
     \<Rightarrow> ((error + CommitFile list) \<times> state) option" where
  "ListFiles_loop h owner repo number page allFiles s =
     (case list_files h (calls (invoke (PullRequests_ListFiles owner repo number page) s)) of
        Inl err \<Rightarrow> Some (Inl err, invoke (PullRequests_ListFiles owner repo number page) s)
      | Inr (files, nextPage) \<Rightarrow>
          if nextPage = 0
          then Some (Inr (allFiles @ files),
                     invoke (PullRequests_ListFiles owner repo number page) s)
          else ListFiles_loop h owner repo number nextPage (allFiles @ files)
                 (invoke (PullRequests_ListFiles owner repo number page) s))"

declare ListFiles_loop.simps [code]

definition ListFiles ::
  "host \<Rightarrow> PullRequest \<Rightarrow> state \<Rightarrow> ((error + CommitFile list) \<times> state) option" where
  "ListFiles h pr s =
     (let (owner, repo) = ctx_Repo h;
          s1 = logf Info ''Retrieving files for PR #%d from %s/%s''
                 [I (pr_Number pr), S owner, S repo] s
      in if pr_ChangedFiles pr = 0 then Some (Inr [], s1)
         else ListFiles_loop h owner repo (pr_Number pr) 0 [] s1)"

text \<open>
  The comparison loop of \<open>MergeKind\<close>, entered with two lists of the same length: the
  first pair that differs decides \<open>Rebase\<close>.
\<close>

fun compareFiles :: "CommitFile list \<Rightarrow> CommitFile list \<Rightarrow> MergeKind" where
  "compareFiles (file # files) (other # others) =
     (if \<not> compareCommitFile file other then Rebase else compareFiles files others)"
| "compareFiles files others = Squash"

text \<open>
  \<open>MergeKind\<close> returns a kind and an error; \<open>Inl err\<close> stands for the pair
  \<open>(MergeInvalid, err)\<close>.
\<close>

definition MergeKind ::
  "host \<Rightarrow> PullRequest \<Rightarrow> state \<Rightarrow> ((error + MergeKind) \<times> state) option" where
  "MergeKind h pr s =
     (if \<not> pr_Merged pr then Some (Inr MergeInvalid, s)
      else if pr_MergeCommitSHA pr \<noteq> [] then
        (case GetCommit h (pr_MergeCommitSHA pr) s of
           (Inl err, s1) \<Rightarrow>
             Some (Inl (Wrap (''failed to get parents of merge commit '' @ pr_MergeCommitSHA pr)
                          err), s1)
         | (Inr mergeCommit, s1) \<Rightarrow>
             if IsMergeCommit mergeCommit then Some (Inr MergeCommit, s1)
             else if pr_Commits pr = 1 then Some (Inr Squash, s1)
             else
               (case ListFiles h pr s1 of
                  None \<Rightarrow> None
                | Some (Inl err, s2) \<Rightarrow>
                    Some (Inl (Wrap (''failed to list changed files in PR #''
                                      @ itoa (pr_Number pr)) err), s2)
                | Some (Inr files, s2) \<Rightarrow>
                    if length files = length (rc_Files mergeCommit)
                    then Some (Inr (compareFiles files (rc_Files mergeCommit)), s2)
                    else Some (Inr Rebase, s2)))
      else Some (Inr MergeInvalid, s))"


definition CreatePR ::
  "host \<Rightarrow> NewPullRequest \<Rightarrow> state \<Rightarrow> (error + PullRequest) \<times> state" where
  "CreatePR h pr s =
     (let (owner, repo) = ctx_Repo h;
          s1 = logf Info ''Creating PR in %s/%s'' [S owner, S repo] s;
          s2 = invoke (PullRequests_Create owner repo pr) s1
      in case create_pr h (calls s2) of
           Inl err \<Rightarrow> (Inl err, s2)
         | Inr (code, createdPr) \<Rightarrow>
             if code \<noteq> 201 then (Inl (unexpected_status code), s2) else (Inr createdPr, s2))"

text \<open>
  \<open>LabelPR\<close> binds the two results of \<open>Repo()\<close>, owner and repository, to the
  variables \<open>repo\<close> and \<open>owner\<close> in that order, and passes \<open>owner, repo\<close> on. The
  labels the host returns are not used by any caller; the result is the error only.
\<close>

definition LabelPR :: "host \<Rightarrow> PullRequest \<Rightarrow> string list \<Rightarrow> state \<Rightarrow> error option \<times> state" where
  "LabelPR h pr labels s =
     (if length labels = 0 then (None, s)
      else
        let (repo, owner) = ctx_Repo h;
            s1 = logf Info ''Adding labels <%+v> to PR #%d in %s/%s''
                   [L labels, I (pr_Number pr), S owner, S repo] s;
            s2 = invoke (Issues_AddLabelsToIssue owner repo (pr_Number pr) labels) s1
        in case add_labels h (calls s2) of
             Inl err \<Rightarrow> (Some err, s2)
           | Inr code \<Rightarrow>
               if code \<noteq> 200 then (Some (unexpected_status code), s2) else (None, s2))"

definition CreateComment :: "host \<Rightarrow> int \<Rightarrow> string \<Rightarrow> state \<Rightarrow> error option \<times> state" where
  "CreateComment h issueNumber body s =
     (let (owner, repo) = ctx_Repo h;
          s1 = logf Info ''Creating comment on issue/PR #%d in %s/%s''
                 [I issueNumber, S owner, S repo] s;
          s2 = invoke (Issues_CreateComment owner repo issueNumber body) s1
      in case create_comment h (calls s2) of
           Inl err \<Rightarrow> (Some err, s2)
         | Inr code \<Rightarrow>
             if code \<noteq> 201 then (Some (unexpected_status code), s2) else (None, s2))"

text \<open>
  \<open>DisPatchPrCreatedEvent\<close> is called by \<open>Run\<close>; its body is not among the sources.
  It is one call to the host, which answers with an error or none.
\<close>

definition DisPatchPrCreatedEvent_call ::
  "host \<Rightarrow> PullRequest \<Rightarrow> state \<Rightarrow> error option \<times> state" where
  "DisPatchPrCreatedEvent_call h newPr s =
     (let s1 = invoke (DisPatchPrCreatedEvent newPr) s in (dispatch h (calls s1), s1))"

text \<open>
  The paging loop of \<open>GetCommits\<close>. The source compares
  \<open>float64(NextPage) > math.Ceil(float64(pr.GetCommits())/100)\<close>; on the integers a
  pull request can hold this is the comparison with the integer ceiling written here.
\<close>

definition ceil_div_100 :: "int \<Rightarrow> int" where
  "ceil_div_100 n = - ((- n) div 100)"

partial_function (option) GetCommits_loop ::
  "host \<Rightarrow> string \<Rightarrow> string \<Rightarrow> PullRequest \<Rightarrow> int \<Rightarrow> RepositoryCommit list \<Rightarrow> state
     \<Rightarrow> ((error + RepositoryCommit list) \<times> state) option" where
  "GetCommits_loop h owner repo pr page allCommits s =
     (case list_commits h
             (calls (invoke (PullRequests_ListCommits owner repo (pr_Number pr) page) s)) of
        Inl err \<Rightarrow>
          Some (Inl err, invoke (PullRequests_ListCommits owner repo (pr_Number pr) page) s)
      | Inr (commits, nextPage) \<Rightarrow>
          if nextPage = 0 \<or> nextPage > ceil_div_100 (pr_Commits pr)
          then Some (Inr (allCommits @ commits),
                     invoke (PullRequests_ListCommits owner repo (pr_Number pr) page) s)
          else GetCommits_loop h owner repo pr nextPage (allCommits @ commits)
                 (invoke (PullRequests_ListCommits owner repo (pr_Number pr) page) s))"

declare GetCommits_loop.simps [code]

definition GetCommits ::
  "host \<Rightarrow> PullRequest \<Rightarrow> state \<Rightarrow> ((error + RepositoryCommit list) \<times> state) option" where
  "GetCommits h pr s =
     (let (owner, repo) = ctx_Repo h;
          s1 = logf Info ''Retrieving commits for PR #%d from %s/%s''
                 [I (pr_Number pr), S owner, S repo] s
      in if pr_Commits pr = 0 then Some (Inr [], s1)
         else
           (case commitsPRCache s1 (pr_Number pr) of
              Some commits \<Rightarrow> Some (Inr commits, s1)
            | None \<Rightarrow>
                (case GetCommits_loop h owner repo pr 0 [] s1 of
                   None \<Rightarrow> None
                 | Some (Inl err, s2) \<Rightarrow> Some (Inl err, s2)
                 | Some (Inr allCommits, s2) \<Rightarrow>
                     Some (Inr allCommits,
                           s2\<lparr>commitsPRCache :=
                                 (commitsPRCache s2)(pr_Number pr \<mapsto> allCommits)\<rparr>))))"

section \<open>Package git\<close>

text \<open>
  \<open>runCmd\<close>: the error carries the command line and the exit code; a process that
  did not start has no \<open>ProcessState\<close>, whose \<open>ExitCode()\<close> is then -1. When \<open>Run\<close>
  of \<open>os/exec\<close> returns no error the exit status is 0, so the second check of the
  source never fires.
\<close>

definition runCmd :: "host \<Rightarrow> string list \<Rightarrow> state \<Rightarrow> error option \<times> state" where
  "runCmd h args s =
     (let s1 = logf Info ''Running git command: git %v'' [L args] s;
          s2 = invoke (Exec_git args) s1
      in case git_proc h (calls s2) of
           Ran out \<Rightarrow> (None, s2)
         | ExitError m code \<Rightarrow> (Some (ErrGitOp (Join (''git'' # args) '' '') (Opaque m) code), s2)
         | NotRun m \<Rightarrow> (Some (ErrGitOp (Join (''git'' # args) '' '') (Opaque m) (- 1)), s2))"

definition Fetch :: "host \<Rightarrow> string \<Rightarrow> int \<Rightarrow> state \<Rightarrow> error option \<times> state" where
  "Fetch h ref depth s =
     runCmd h [''fetch'', ''--depth'', itoa depth, ''origin'', ref]
       (logf Info ''Fetching from remote origin, ref %s, depth %d'' [S ref, I depth] s)"

definition Push :: "host \<Rightarrow> string \<Rightarrow> state \<Rightarrow> error option \<times> state" where
  "Push h ref s =
     runCmd h [''push'', ''--set-upstream'', ''origin'', ref]
       (logf Info ''Pushing branch %s to remote origin'' [S ref] s)"

definition Checkout :: "host \<Rightarrow> string \<Rightarrow> string \<Rightarrow> state \<Rightarrow> error option \<times> state" where
  "Checkout h ref startPoint s =
     runCmd h [''switch'', ''--create'', ref, startPoint]
       (logf Info ''Checking out branch %s from %s'' [S ref, S startPoint] s)"

text \<open>
  \<open>CherryPick\<close> builds \<open>cmd\<close> from the options and the commits, and runs
  \<open>append(cmd, commits...)\<close>: the commits stand twice on the command line.
\<close>

definition CherryPick :: "host \<Rightarrow> bool \<Rightarrow> string list \<Rightarrow> state \<Rightarrow> error option \<times> state" where
  "CherryPick h commitOnConflict commits s =
     (let cmd = [''cherry-pick'', ''--empty=drop'', ''--allow-empty'', ''-x''] @ commits;
          s1 = logf Info ''Cherry-picking commits using git %v'' [L cmd] s
      in case runCmd h (cmd @ commits) s1 of
           (None, s2) \<Rightarrow> (None, s2)
         | (Some err, s2) \<Rightarrow>
             (case (if commitOnConflict \<and> IsConflictErr err
                    then
                      (case runCmd h [''commit'', ''--all'', ''--message'',
                                      ''Backport commit with conflicts, needs manual resolution'']
                              (logf Warning
                                 ''Conflict occurred while cherry-picking commits %v, creating draft commit: %v''
                                 [L commits, E err] s2) of
                         (Some err', s3) \<Rightarrow>
                           (Some (Wrap ''failed to create draft commit after conflict'' err'), s3)
                       | (None, s3) \<Rightarrow> (None, s3))
                    else (None, s2)) of
                (Some ret, s3) \<Rightarrow> (Some ret, s3)
              | (None, s3) \<Rightarrow>
                  (case runCmd h [''cherry-pick'', ''--abort''] s3 of
                     (Some abortErr, s4) \<Rightarrow>
                       (Some (Wrap (''failed to cherry-pick commits '' @ fmt_v commits) err),
                        logf Warning ''Failed to abort cherry-pick after error: %v''
                          [E abortErr] s4)
                   | (None, s4) \<Rightarrow>
                       (Some (Wrap (''failed to cherry-pick commits '' @ fmt_v commits) err), s4))))"

definition FindCommitRange ::
  "host \<Rightarrow> string list \<Rightarrow> state \<Rightarrow> (error + string list) \<times> state" where
  "FindCommitRange h args s =
     (let s1 = logf Info ''Finding commit range for %s using git rev-list'' [L args] s;
          cmdArgs = [''rev-list'', ''--reverse''] @ args;
          s2 = invoke (Exec_git cmdArgs) s1
      in case git_proc h (calls s2) of
           ExitError m code \<Rightarrow> (Inl (ErrGitOp (Join (''git'' # cmdArgs) '' '') (Opaque m) code), s2)
         | NotRun m \<Rightarrow> (Inl (Wrap ''failed to run git rev-list'' (Opaque m)), s2)
         | Ran out \<Rightarrow>
             (Inr (Fields out),
              logf Info ''Found commits in range %v: %v'' [L args, L (Fields out)] s2))"

section \<open>Package backport\<close>

text \<open>The inputs of the action (\<open>Input\<close>), with the two compiled patterns.\<close>

record Input =
  GitHubToken :: string
  Committer :: string
  Email :: string
  Title :: string
  Description :: string
  CopyLabelsPattern :: string
  copyLabelRegex :: "Regexp option"
  LabelPattern :: string
  labelRegex :: "Regexp option"
  ConflictHandling :: string
  MergeCommitHandling :: string

definition MergeCommitHandlingSkip :: string where
  "MergeCommitHandlingSkip = ''skip''"

definition MergeCommitHandlingAbort :: string where
  "MergeCommitHandlingAbort = ''abort''"

definition ConflictHandlingAbort :: string where
  "ConflictHandlingAbort = ''abort''"

definition ConflictHandlingDraft :: string where
  "ConflictHandlingDraft = ''draft''"

definition makeBackportBranchName :: "int \<Rightarrow> string \<Rightarrow> string" where
  "makeBackportBranchName prNumber targetBranch =
     ''backport-'' @ itoa prNumber @ ''-to-'' @ targetBranch"

definition replacePlaceholders :: "string \<Rightarrow> string \<Rightarrow> PullRequest \<Rightarrow> string" where
  "replacePlaceholders value target sourcePr =
     ReplaceAll
       (ReplaceAll
          (ReplaceAll (ReplaceAll value ''${target_branch}'' target)
             ''${original_pr_number}'' (itoa (pr_Number sourcePr)))
          ''${original_pr_title}'' (pr_Title sourcePr))
       ''${original_pr_description}'' (pr_Body sourcePr)"

definition makeNewPullRequest ::
  "Input \<Rightarrow> PullRequest \<Rightarrow> string \<Rightarrow> string \<Rightarrow> bool \<Rightarrow> NewPullRequest" where
  "makeNewPullRequest config sourcePr target backport draft =
     \<lparr>np_Title = replacePlaceholders (Title config) target sourcePr,
      np_Head = backport,
      np_Base = target,
      np_Body = replacePlaceholders (Description config) target sourcePr,
      np_MaintainerCanModify = True,
      np_Draft = draft\<rparr>"

text \<open>
  \<open>listManualSteps\<close>. The second step is formatted with
  \<open>"git worktree add --checkout %s origin/%[1]s"\<close> and the arguments
  \<open>worktree, refName\<close>: the index \<open>[1]\<close> selects the first argument again.
\<close>

definition manualSteps :: "string \<Rightarrow> string list \<Rightarrow> string list" where
  "manualSteps refName commitSHAs =
     (let worktree = ReplaceAll refName ''/'' ''-'' in
      [''git fetch origin '' @ refName,
       ''git worktree add --checkout '' @ worktree @ '' origin/'' @ worktree,
       ''cd '' @ worktree,
       ''git reset --hard HEAD^'',
       ''git cherry-pick -x '' @ Join commitSHAs '' '',
       ''git push --force'',
       ''cd -'',
       ''git worktree remove '' @ worktree])"

definition listManualSteps :: "string \<Rightarrow> string list \<Rightarrow> string" where
  "listManualSteps refName commitSHAs = Join (manualSteps refName commitSHAs) ''\<newline>''"

text \<open>
  The loop of \<open>getTargetRefs\<close> over the labels, \<open>branches\<close> being the slice built so
  far.
\<close>

fun getTargetRefs_loop ::
  "host \<Rightarrow> Input \<Rightarrow> Regexp \<Rightarrow> string list \<Rightarrow> string list \<Rightarrow> state \<Rightarrow> string list \<times> state" where
  "getTargetRefs_loop h config re [] branches s = (branches, s)"
| "getTargetRefs_loop h config re (label # labels) branches s =
     (let matches = FindStringSubmatch re label in
      if length matches = 0 then
        getTargetRefs_loop h config re labels branches
          (logf Info ''Label <%s> does not match pattern <%s>''
             [S label, S (LabelPattern config)] s)
      else if length matches < 2 then
        getTargetRefs_loop h config re labels branches
          (logf Warning ''Label <%s> matches pattern <%s> but has no capturing group''
             [S label, S (LabelPattern config)] s)
      else
        (case Fetch h (matches ! 1) 2 s of
           (Some err, s1) \<Rightarrow>
             getTargetRefs_loop h config re labels branches
               (logf Warning
                  ''Branch <%s> extracted from label <%s> does not exist in repository %s/%s. %v''
                  [S (matches ! 1), S label, S (fst (ctx_Repo h)), S (snd (ctx_Repo h)), E err] s1)
         | (None, s1) \<Rightarrow>
             getTargetRefs_loop h config re labels (branches @ [matches ! 1])
               (logf Info ''Label <%s> matches pattern <%s>, adding branch <%s>''
                  [S label, S (LabelPattern config), S (matches ! 1)] s1)))"

definition getTargetRefs :: "host \<Rightarrow> Input \<Rightarrow> PullRequest \<Rightarrow> state \<Rightarrow> string list \<times> state" where
  "getTargetRefs h config sourcePr s =
     (case labelRegex config of
        None \<Rightarrow> ([], s)
      | Some re \<Rightarrow>
          if length (pr_Labels sourcePr) = 0 then ([], s)
          else getTargetRefs_loop h config re (pr_Labels sourcePr) []
                 (logf Info ''Finding target branches matching pattern: %s''
                    [S (LabelPattern config)] s))"

text \<open>
  \<open>getLabelsToAdd\<close>; its error result is nil on every path and is left out.
\<close>

fun getLabelsToAdd_loop ::
  "Input \<Rightarrow> Regexp \<Rightarrow> string list \<Rightarrow> string list \<Rightarrow> state \<Rightarrow> string list \<times> state" where
  "getLabelsToAdd_loop config copyRe [] labels s = (labels, s)"
| "getLabelsToAdd_loop config copyRe (label # rest) labels s =
     (if (case labelRegex config of None \<Rightarrow> False | Some re \<Rightarrow> MatchString re label) then
        getLabelsToAdd_loop config copyRe rest labels
          (logf Info ''Skipping label <%s> as it was used to determine target branches''
             [S label] s)
      else if \<not> MatchString copyRe label then
        getLabelsToAdd_loop config copyRe rest labels
          (logf Info ''Label <%s> does not match pattern <%s>''
             [S label, S (CopyLabelsPattern config)] s)
      else
        getLabelsToAdd_loop config copyRe rest (labels @ [label])
          (logf Info ''Label <%s> matches pattern <%s>, adding to backport PR labels''
             [S label, S (CopyLabelsPattern config)] s))"

definition getLabelsToAdd :: "Input \<Rightarrow> PullRequest \<Rightarrow> state \<Rightarrow> string list \<times> state" where
  "getLabelsToAdd config sourcePr s =
     (case copyLabelRegex config of
        None \<Rightarrow> ([], s)
      | Some copyRe \<Rightarrow>
          if length (pr_Labels sourcePr) = 0 then ([], s)
          else getLabelsToAdd_loop config copyRe (pr_Labels sourcePr) []
                 (logf Info ''Finding labels to copy matching pattern: %s''
                    [S (CopyLabelsPattern config)] s))"

text \<open>
  How a part of a function body ends: it falls through to the code after it, or the
  function returns.
\<close>

datatype 'a flow = Fallthrough | Return 'a

text \<open>The comment posted when the pick fails under \<open>ConflictHandlingAbort\<close>.\<close>

definition abort_msg :: "string \<Rightarrow> string" where
  "abort_msg targetRef =
     warning_sign @ '' Conflict occurred while backporting to branch '' @ targetRef
       @ ''. Aborting backport as per configuration.''"

text \<open>The case \<open>ConflictHandlingAbort\<close> of the switch in \<open>cherryPick\<close>.\<close>

definition cherryPick_abort ::
  "host \<Rightarrow> PullRequest \<Rightarrow> string \<Rightarrow> string list \<Rightarrow> state \<Rightarrow> PullRequest option flow \<times> state" where
  "cherryPick_abort h srcPr targetRef commitSHAs s =
     (case CherryPick h False commitSHAs s of
        (None, s1) \<Rightarrow> (Fallthrough, s1)
      | (Some err, s1) \<Rightarrow>
          (case CreateComment h (pr_Number srcPr) (abort_msg targetRef)
                  (logf Error ''Failed to cherry pick commits: %v'' [E err] s1) of
             (Some err', s2) \<Rightarrow>
               (Return None,
                logf Error ''Failed to create comment on PR #%d: %v''
                  [I (pr_Number srcPr), E err'] s2)
           | (None, s2) \<Rightarrow> (Return None, s2)))"

text \<open>The comment posted at a conflict under \<open>ConflictHandlingDraft\<close>.\<close>

definition draft_msg :: "string \<Rightarrow> string \<Rightarrow> string \<Rightarrow> string list \<Rightarrow> string" where
  "draft_msg commitSHA targetRef backportRef remaining =
     warning_sign @ '' Backporting commit '' @ commitSHA @ '' to branch `'' @ targetRef
       @ ''` causes a conflict. Created draft PR for manual resolution.\<newline>\<newline>''
       @ ''### Manual Backport Steps\<newline>```bash\<newline>''
       @ listManualSteps backportRef remaining @ ''\<newline>```\<newline>''"

text \<open>
  The case \<open>ConflictHandlingDraft\<close>: the loop over \<open>commitSHAs\<close>. The argument is
  the part of the slice not yet picked, so that at index \<open>i\<close> it is \<open>commitSHAs[i:]\<close>.
\<close>

fun cherryPick_draft ::
  "host \<Rightarrow> Input \<Rightarrow> PullRequest \<Rightarrow> string \<Rightarrow> string \<Rightarrow> string list \<Rightarrow> state
     \<Rightarrow> PullRequest option flow \<times> state" where
  "cherryPick_draft h config srcPr targetRef backportRef [] s = (Fallthrough, s)"
| "cherryPick_draft h config srcPr targetRef backportRef (commitSHA # rest) s =
     (case CherryPick h True [commitSHA] s of
        (None, s1) \<Rightarrow>
          cherryPick_draft h config srcPr targetRef backportRef rest
            (logf Info ''Successfully cherry-picked commit %s to branch %s''
               [S commitSHA, S targetRef] s1)
      | (Some err, s1) \<Rightarrow>
          if IsConflictErr err then
            (case Push h backportRef
                    (logf Warning
                       ''Conflict occurred while cherry-picking commit %s to branch %s, trying to prepare for manual backport.''
                       [S commitSHA, S targetRef] s1) of
               (Some err', s2) \<Rightarrow>
                 (Return None,
                  logf Error ''Failed to push backport branch %s: %v'' [S backportRef, E err'] s2)
             | (None, s2) \<Rightarrow>
                 (case CreatePR h (makeNewPullRequest config srcPr targetRef backportRef True) s2 of
                    (Inl err', s3) \<Rightarrow>
                      (Return None,
                       logf Error ''Failed to create draft PR for backport branch %s: %v''
                         [S backportRef, E err'] s3)
                  | (Inr newPr, s3) \<Rightarrow>
                      (case CreateComment h (pr_Number srcPr)
                              (draft_msg commitSHA targetRef backportRef (commitSHA # rest)) s3 of
                         (r1, s4) \<Rightarrow>
                           (case CreateComment h (pr_Number newPr)
                                   (draft_msg commitSHA targetRef backportRef (commitSHA # rest))
                                   (case r1 of
                                      None \<Rightarrow> s4
                                    | Some err' \<Rightarrow>
                                        logf Error ''Failed to create comment on PR #%d: %v''
                                          [I (pr_Number srcPr), E err'] s4) of
                              (r2, s5) \<Rightarrow>
                                (Return (Some newPr),
                                 (case r2 of
                                    None \<Rightarrow> s5
                                  | Some err' \<Rightarrow>
                                      logf Error ''Failed to create comment on draft PR #%d: %v''
                                        [I (pr_Number newPr), E err'] s5))))))
          else
            (Return None,
             logf Error ''Failed to create commit for cherry-pick of %s: %v''
               [S commitSHA, E err] s1))"

definition cherryPick ::
  "host \<Rightarrow> Input \<Rightarrow> PullRequest \<Rightarrow> string \<Rightarrow> string \<Rightarrow> string list \<Rightarrow> state
     \<Rightarrow> PullRequest option \<times> state" where
  "cherryPick h config srcPr targetRef backportRef commitSHAs s =
     (case (if ConflictHandling config = ConflictHandlingAbort
            then cherryPick_abort h srcPr targetRef commitSHAs s
            else if ConflictHandling config = ConflictHandlingDraft
            then cherryPick_draft h config srcPr targetRef backportRef commitSHAs s
            else (Return None,
                  logf Error ''Unknown conflict handling strategy: %s''
                    [S (ConflictHandling config)] s)) of
        (Return r, s1) \<Rightarrow> (r, s1)
      | (Fallthrough, s1) \<Rightarrow>
          (case Push h backportRef s1 of
             (Some err, s2) \<Rightarrow>
               (None,
                logf Error ''Failed to push backport branch %s: %v'' [S backportRef, E err] s2)
           | (None, s2) \<Rightarrow>
               (case CreatePR h (makeNewPullRequest config srcPr targetRef backportRef False) s2 of
                  (Inl err, s3) \<Rightarrow>
                    (None,
                     logf Error ''Failed to create PR for backport branch %s: %v''
                       [S backportRef, E err] s3)
                | (Inr newPr, s3) \<Rightarrow>
                    (Some newPr,
                     logf Info ''Created backport PR #%d for branch %s''
                       [I (pr_Number newPr), S targetRef] s3))))"

text \<open>
  How a run of the program ends: \<open>Run\<close> returns (an error or nil), a run-time panic
  stops it, or \<open>githubactions.Fatalf\<close> exits the process.
\<close>

datatype outcome = Returned "error option" | Panicked string | Exited int

text \<open>The switch of \<open>Run\<close> on the merge kind, which builds \<open>commitSHAs\<close>.\<close>

definition selectCommits ::
  "host \<Rightarrow> int \<Rightarrow> PullRequest \<Rightarrow> MergeKind \<Rightarrow> state \<Rightarrow> ((outcome + string list) \<times> state) option" where
  "selectCommits h srcPrNumber sourcePr mk s =
     (case mk of
        Squash \<Rightarrow>
          Some (Inr [pr_MergeCommitSHA sourcePr],
                logf Info
                  ''Pull request was merged with a squash commit, cherry-picking the squash commit %s''
                  [S (pr_MergeCommitSHA sourcePr)] s)
      | MergeCommit \<Rightarrow>
          (case GetCommits h sourcePr
                  (logf Info
                     ''Pull request was merged with a merge commit, cherry-picking all commits from #%d excluding the merge commit''
                     [I srcPrNumber] s) of
             None \<Rightarrow> None
           | Some (Inl err, s1) \<Rightarrow> Some (Inl (Returned (Some err)), s1)
           | Some (Inr commits, s1) \<Rightarrow> Some (Inr (map rc_SHA commits), s1))
      | Rebase \<Rightarrow>
          (case FindCommitRange h
                  [pr_MergeCommitSHA sourcePr @ ''~'' @ itoa (pr_Commits sourcePr) @ ''..''
                     @ pr_MergeCommitSHA sourcePr]
                  (logf Info ''Pull request was merged with rebase, finding commits to cherry-pick''
                     [] s) of
             (Inl err, s1) \<Rightarrow> Some (Inl (Returned (Some err)), s1)
           | (Inr ranges, s1) \<Rightarrow> Some (Inr ranges, s1))
      | MergeInvalid \<Rightarrow>
          Some (Inl (Exited 1),
                logf Error
                  ''Could not determine merge strategy <%s> for pull request #%d, skipping backport.''
                  [K mk, I srcPrNumber] s))"

text \<open>
  The search for merge commits in the selected range and what \<open>Run\<close> does with
  them. The source indexes \<open>commitSHAs[0]\<close> and \<open>commitSHAs[len(commitSHAs)-1]\<close>
  first: on an empty slice Go panics.
\<close>

definition filterMergeCommits ::
  "host \<Rightarrow> Input \<Rightarrow> int \<Rightarrow> string list \<Rightarrow> state \<Rightarrow> (outcome + string list) \<times> state" where
  "filterMergeCommits h config srcPrNumber commitSHAs s =
     (if length commitSHAs = 0
      then (Inl (Panicked ''runtime error: index out of range [0] with length 0''), s)
      else
        (case FindCommitRange h
                [''--merges'',
                 commitSHAs ! 0 @ ''^..'' @ commitSHAs ! (length commitSHAs - 1)] s of
           (Inl err, s1) \<Rightarrow> (Inl (Returned (Some err)), s1)
         | (Inr mergeCommitSHAs, s1) \<Rightarrow>
             if length mergeCommitSHAs \<noteq> 0 then
               if MergeCommitHandling config = MergeCommitHandlingAbort then
                 (case CreateComment h srcPrNumber
                         (warning_sign @ '' Found merge commit(s) '' @ fmt_v mergeCommitSHAs
                            @ '' in pull request #'' @ itoa srcPrNumber
                            @ '', backport aborted as per configuration.'')
                         (logf Warning
                            ''Found merge commit(s) %v in pull request #%d, aborting backport as per configuration''
                            [L mergeCommitSHAs, I srcPrNumber] s1) of
                    (r, s2) \<Rightarrow> (Inl (Returned r), s2))
               else
                 (Inr (DeleteFunc commitSHAs (\<lambda>c. Contains mergeCommitSHAs c)),
                  logf Info ''Skipping merge commit %v as per configuration''
                    [L mergeCommitSHAs] s1)
             else (Inr commitSHAs, s1)))"

text \<open>
  The loop of \<open>Run\<close> over the target branches, with \<open>prList\<close> and \<open>refList\<close> as
  built so far. The name of the repository event in the last log line is a constant
  that is not among the sources; the line keeps its two other arguments.
\<close>

fun backportTargets ::
  "host \<Rightarrow> Input \<Rightarrow> int \<Rightarrow> PullRequest \<Rightarrow> string list \<Rightarrow> string list \<Rightarrow> string list
     \<Rightarrow> string \<Rightarrow> string list \<Rightarrow> state \<Rightarrow> (string \<times> string list) \<times> state" where
  "backportTargets h config srcPrNumber sourcePr commitSHAs labelsToAdd [] prList refList s =
     ((prList, refList), s)"
| "backportTargets h config srcPrNumber sourcePr commitSHAs labelsToAdd (targetRef # rest)
     prList refList s =
     (case Checkout h (makeBackportBranchName srcPrNumber targetRef) (''origin/'' @ targetRef)
             (logf Info ''Creating backport branch %s for target branch %s''
                [S (makeBackportBranchName srcPrNumber targetRef), S targetRef] s) of
        (Some err, s1) \<Rightarrow>
          backportTargets h config srcPrNumber sourcePr commitSHAs labelsToAdd rest prList refList
            (logf Error ''Failed to checkout backport branch %s: %v''
               [S (makeBackportBranchName srcPrNumber targetRef), E err] s1)
      | (None, s1) \<Rightarrow>
          (case cherryPick h config sourcePr targetRef
                  (makeBackportBranchName srcPrNumber targetRef) commitSHAs s1 of
             (None, s2) \<Rightarrow>
               backportTargets h config srcPrNumber sourcePr commitSHAs labelsToAdd rest
                 prList refList s2
           | (Some newPr, s2) \<Rightarrow>
               (case LabelPR h sourcePr labelsToAdd s2 of
                  (r1, s3) \<Rightarrow>
                    (case DisPatchPrCreatedEvent_call h newPr
                            (case r1 of
                               None \<Rightarrow> s3
                             | Some err \<Rightarrow>
                                 logf Error
                                   ''Failed to add labels to backport PR for branch %s: %v''
                                   [S (makeBackportBranchName srcPrNumber targetRef), E err] s3) of
                       (r2, s4) \<Rightarrow>
                         backportTargets h config srcPrNumber sourcePr commitSHAs labelsToAdd rest
                           (prList @ ''- #'' @ itoa (pr_Number newPr) @ ''\<newline>'')
                           (refList @ [''`'' @ targetRef @ ''`''])
                           (case r2 of
                              None \<Rightarrow> s4
                            | Some err \<Rightarrow>
                                logf Error
                                  ''Failed to dispatch <%s> repository event for backport PR #%d: %v''
                                  [I (pr_Number newPr), E err] s4)))))"

text \<open>The end of \<open>Run\<close>: the comment on the source pull request with the results.\<close>

definition nothing_created_body :: string where
  "nothing_created_body =
     warning_sign
       @ '' No backport PRs were created successfully. See the GitHub Actions logs for details.''"

definition successBody :: "string list \<Rightarrow> string \<Rightarrow> string" where
  "successBody refList prList =
     ''Successfully created backport PR(s) onto the following branch(es): ''
       @ Join refList '', '' @ ''\<newline>\<newline>---\<newline>'' @ prList"

definition report :: "host \<Rightarrow> int \<Rightarrow> string \<Rightarrow> string list \<Rightarrow> state \<Rightarrow> outcome \<times> state" where
  "report h srcPrNumber prList refList s =
     (if length refList = 0 then
        (case CreateComment h srcPrNumber nothing_created_body
                (logf Info ''No backport PRs were created successfully, exiting.'' [] s) of
           (r, s1) \<Rightarrow> (Returned r, s1))
      else
        (case CreateComment h srcPrNumber (successBody refList prList) s of
           (r, s1) \<Rightarrow> (Returned r, s1)))"

text \<open>
  The method \<open>Run\<close> of \<open>backPorter\<close>. \<open>GetPrNumber\<close> reads the number of the pull
  request from the payload of the event; its result is the field \<open>event_pr_number\<close> of
  the host. The result is \<open>None\<close> when a paging loop never ends.
\<close>

definition not_merged_body :: string where
  "not_merged_body =
     warning_sign
       @ '' For security reasons, backbot backports merged pull requests only. Aborting.''"

definition no_commits_body :: string where
  "no_commits_body =
     warning_sign
       @ '' No commits to cherry-pick after applying configuration, skipping backport.''"

definition Run :: "host \<Rightarrow> Input \<Rightarrow> state \<Rightarrow> (outcome \<times> state) option" where
  "Run h config s =
     (case event_pr_number h of
        Inl err \<Rightarrow> Some (Returned (Some err), s)
      | Inr srcPrNumber \<Rightarrow>
          (case GetPR h srcPrNumber s of
             (Inl err, s1) \<Rightarrow> Some (Returned (Some err), s1)
           | (Inr sourcePr, s1) \<Rightarrow>
               if \<not> pr_Merged sourcePr then
                 (case CreateComment h srcPrNumber not_merged_body
                         (logf Warning ''Pull request #%d is not merged, skipping backport.''
                            [I srcPrNumber] s1) of
                    (r, s2) \<Rightarrow> Some (Returned r, s2))
               else
                 (case getTargetRefs h config sourcePr s1 of
                    (targetRefs, s2) \<Rightarrow>
                      if length targetRefs = 0 then
                        Some (Returned None,
                              logf Info ''No target branches found for backporting. Exiting.'' [] s2)
                      else
                        (case MergeKind h sourcePr s2 of
                           None \<Rightarrow> None
                         | Some (Inl err, s3) \<Rightarrow> Some (Returned (Some err), s3)
                         | Some (Inr mk, s3) \<Rightarrow>
                             (case selectCommits h srcPrNumber sourcePr mk s3 of
                                None \<Rightarrow> None
                              | Some (Inl out, s4) \<Rightarrow> Some (out, s4)
                              | Some (Inr commitSHAs, s4) \<Rightarrow>
                                  (case filterMergeCommits h config srcPrNumber commitSHAs s4 of
                                     (Inl out, s5) \<Rightarrow> Some (out, s5)
                                   | (Inr kept, s5) \<Rightarrow>
                                       if length kept = 0 then
                                         (case CreateComment h srcPrNumber no_commits_body
                                                 (logf Info
                                                    ''No commits to cherry-pick after applying configuration, exiting.''
                                                    [] s5) of
                                            (r, s6) \<Rightarrow> Some (Returned r, s6))
                                       else
                                         (case getLabelsToAdd config sourcePr s5 of
                                            (labelsToAdd, s6) \<Rightarrow>
                                              (case backportTargets h config srcPrNumber sourcePr
                                                      kept labelsToAdd targetRefs [] [] s6 of
                                                 ((prList, refList), s7) \<Rightarrow>
                                                   Some (report h srcPrNumber prList refList s7)))))))))"

section \<open>The claims' own notions\<close>

text \<open>
  Two file lists are equal element-wise in order: they have the same length and, at
  every index, the same filename, additions, deletions, changes and patch text.
\<close>

definition same_files :: "CommitFile list \<Rightarrow> CommitFile list \<Rightarrow> bool" where
  "same_files xs ys =
     list_all2 (\<lambda>a b. cf_Filename a = cf_Filename b \<and> cf_Additions a = cf_Additions b
                  \<and> cf_Deletions a = cf_Deletions b \<and> cf_Changes a = cf_Changes b
                  \<and> cf_Patch a = cf_Patch b) xs ys"

text \<open>
  The text of the first capturing group for each label whose match has one, in the
  order of the labels.
\<close>

definition captured :: "Regexp \<Rightarrow> string list \<Rightarrow> string list" where
  "captured re labels =
     map (\<lambda>l. FindStringSubmatch re l ! 1) (filter (\<lambda>l. 2 \<le> length (FindStringSubmatch re l)) labels)"

text \<open>The warning logged for a label that matches without a capturing group.\<close>

definition no_group_warning :: "Input \<Rightarrow> string \<Rightarrow> level \<times> string \<times> arg list" where
  "no_group_warning config label =
     (Warning, ''Label <%s> matches pattern <%s> but has no capturing group'',
      [S label, S (LabelPattern config)])"

text \<open>
  One turn of the loop of \<open>Run\<close> over the target branches, as an attempt: the branch
  is created, the commits are replayed, and a pull request that \<open>cherryPick\<close> returns
  (a draft one included) is labelled and announced. The result is that pull request,
  if any, and the state after the turn.
\<close>

definition attempt ::
  "host \<Rightarrow> Input \<Rightarrow> int \<Rightarrow> PullRequest \<Rightarrow> string list \<Rightarrow> string list \<Rightarrow> string \<Rightarrow> state
     \<Rightarrow> PullRequest option \<times> state" where
  "attempt h config srcPrNumber sourcePr commitSHAs labelsToAdd targetRef s =
     (case Checkout h (makeBackportBranchName srcPrNumber targetRef) (''origin/'' @ targetRef)
             (logf Info ''Creating backport branch %s for target branch %s''
                [S (makeBackportBranchName srcPrNumber targetRef), S targetRef] s) of
        (Some err, s1) \<Rightarrow>
          (None,
           logf Error ''Failed to checkout backport branch %s: %v''
             [S (makeBackportBranchName srcPrNumber targetRef), E err] s1)
      | (None, s1) \<Rightarrow>
          (case cherryPick h config sourcePr targetRef
                  (makeBackportBranchName srcPrNumber targetRef) commitSHAs s1 of
             (None, s2) \<Rightarrow> (None, s2)
           | (Some newPr, s2) \<Rightarrow>
               (case LabelPR h sourcePr labelsToAdd s2 of
                  (r1, s3) \<Rightarrow>
                    (case DisPatchPrCreatedEvent_call h newPr
                            (case r1 of
                               None \<Rightarrow> s3
                             | Some err \<Rightarrow>
                                 logf Error
                                   ''Failed to add labels to backport PR for branch %s: %v''
                                   [S (makeBackportBranchName srcPrNumber targetRef), E err] s3) of
                       (r2, s4) \<Rightarrow>
                         (Some newPr,
                          (case r2 of
                             None \<Rightarrow> s4
                           | Some err \<Rightarrow>
                               logf Error
                                 ''Failed to dispatch <%s> repository event for backport PR #%d: %v''
                                 [I (pr_Number newPr), E err] s4))))))"

text \<open>
  The attempts over all targets, in order: the targets whose attempt gave a pull
  request, each with that pull request, and the state after the last attempt.
\<close>

fun created ::
  "host \<Rightarrow> Input \<Rightarrow> int \<Rightarrow> PullRequest \<Rightarrow> string list \<Rightarrow> string list \<Rightarrow> string list \<Rightarrow> state
     \<Rightarrow> (string \<times> PullRequest) list \<times> state" where
  "created h config srcPrNumber sourcePr commitSHAs labelsToAdd [] s = ([], s)"
| "created h config srcPrNumber sourcePr commitSHAs labelsToAdd (targetRef # rest) s =
     (case attempt h config srcPrNumber sourcePr commitSHAs labelsToAdd targetRef s of
        (None, s1) \<Rightarrow> created h config srcPrNumber sourcePr commitSHAs labelsToAdd rest s1
      | (Some newPr, s1) \<Rightarrow>
          (case created h config srcPrNumber sourcePr commitSHAs labelsToAdd rest s1 of
             (later, s2) \<Rightarrow> ((targetRef, newPr) # later, s2)))"

text \<open>What the summary comment lists for a created pull request: the branch and the number.\<close>

definition ref_item :: "string \<times> PullRequest \<Rightarrow> string" where
  "ref_item tp = ''`'' @ fst tp @ ''`''"

definition pr_line :: "string \<times> PullRequest \<Rightarrow> string" where
  "pr_line tp = ''- #'' @ itoa (pr_Number (snd tp)) @ ''\<newline>''"

text \<open>
  Under \<open>ConflictHandlingDraft\<close>, the picks of the given commits one after the other,
  as the loop of \<open>cherryPick\<close> does them: the state after them when every one is
  clean, \<open>None\<close> when one fails.
\<close>

fun clean_picks :: "host \<Rightarrow> string \<Rightarrow> string list \<Rightarrow> state \<Rightarrow> state option" where
  "clean_picks h targetRef [] s = Some s"
| "clean_picks h targetRef (commitSHA # rest) s =
     (case CherryPick h True [commitSHA] s of
        (Some err, s1) \<Rightarrow> None
      | (None, s1) \<Rightarrow>
          clean_picks h targetRef rest
            (logf Info ''Successfully cherry-picked commit %s to branch %s''
               [S commitSHA, S targetRef] s1))"

text \<open>
  The recovery commands of a conflict comment, for the backport branch and the commits
  that remain. \<open>second\<close> is what follows \<open>git worktree add --checkout\<close> on the second
  line.
\<close>

definition recovery_steps :: "string \<Rightarrow> string \<Rightarrow> string list \<Rightarrow> string list" where
  "recovery_steps backportRef second remaining =
     [''git fetch origin '' @ backportRef,
      ''git worktree add --checkout '' @ second,
      ''cd '' @ ReplaceAll backportRef ''/'' ''-'',
      ''git reset --hard HEAD^'',
      ''git cherry-pick -x '' @ Join remaining '' '',
      ''git push --force'',
      ''cd -'',
      ''git worktree remove '' @ ReplaceAll backportRef ''/'' ''-'']"

text \<open>The conflict comment around given recovery commands.\<close>

definition recovery_msg :: "string \<Rightarrow> string \<Rightarrow> string list \<Rightarrow> string" where
  "recovery_msg commitSHA targetRef steps =
     warning_sign @ '' Backporting commit '' @ commitSHA @ '' to branch `'' @ targetRef
       @ ''` causes a conflict. Created draft PR for manual resolution.\<newline>\<newline>''
       @ ''### Manual Backport Steps\<newline>```bash\<newline>''
       @ Join steps ''\<newline>'' @ ''\<newline>```\<newline>''"

text \<open>A comment names a commit or a branch when its text contains the name.\<close>

definition names :: "string \<Rightarrow> string \<Rightarrow> bool" where
  "names body name = sublist name body"

section \<open>Example inputs\<close>

text \<open>
  A host that answers every request with success: it serves one pull request, one
  merge commit, one page of files and one page of commits, numbers the pull requests
  it creates from 101, and lets the function \<open>git\<close> decide each \<open>git\<close> process from
  its arguments.
\<close>

definition is_create :: "call \<Rightarrow> bool" where
  "is_create c = (case c of PullRequests_Create owner repo pr \<Rightarrow> True | _ \<Rightarrow> False)"

definition demo_host ::
  "PullRequest \<Rightarrow> RepositoryCommit \<Rightarrow> CommitFile list \<Rightarrow> RepositoryCommit list
     \<Rightarrow> (string list \<Rightarrow> proc) \<Rightarrow> host" where
  "demo_host pr mergeCommit files commits git =
     \<lparr>event_pr_number = Inr (pr_Number pr),
      ctx_Repo = (''acme'', ''widgets''),
      get_pr = (\<lambda>cs. Inr (200, pr)),
      get_commit = (\<lambda>cs. Inr (200, mergeCommit)),
      list_files = (\<lambda>cs. Inr (files, 0)),
      list_commits = (\<lambda>cs. Inr (commits, 0)),
      create_pr = (\<lambda>cs.
        Inr (201, \<lparr>pr_Number = 100 + int (length (filter is_create cs)), pr_Merged = False,
                    pr_MergeCommitSHA = [], pr_Commits = 0, pr_ChangedFiles = 0, pr_Labels = [],
                    pr_Title = [], pr_Body = [], pr_Draft = False\<rparr>)),
      create_comment = (\<lambda>cs. Inr 201),
      add_labels = (\<lambda>cs. Inr 200),
      dispatch = (\<lambda>cs. None),
      git_proc = (\<lambda>cs. case last cs of Exec_git args \<Rightarrow> git args | _ \<Rightarrow> NotRun [])\<rparr>"

text \<open>Pull request 42, merged as commit \<open>abc123\<close>, with \<open>n\<close> commits and the given labels.\<close>

definition demo_pr :: "int \<Rightarrow> string list \<Rightarrow> PullRequest" where
  "demo_pr n labels =
     \<lparr>pr_Number = 42, pr_Merged = True, pr_MergeCommitSHA = ''abc123'', pr_Commits = n,
      pr_ChangedFiles = 1, pr_Labels = labels, pr_Title = ''Fix'', pr_Body = ''Body'',
      pr_Draft = False\<rparr>"

definition demo_file :: "string \<Rightarrow> CommitFile" where
  "demo_file patch =
     \<lparr>cf_Filename = ''a.go'', cf_Additions = 1, cf_Deletions = 0, cf_Changes = 1, cf_Patch = patch\<rparr>"

definition demo_commit :: "string \<Rightarrow> string list \<Rightarrow> CommitFile list \<Rightarrow> RepositoryCommit" where
  "demo_commit sha parents files = \<lparr>rc_SHA = sha, rc_Parents = parents, rc_Files = files\<rparr>"

text \<open>The state a run starts in: no call made, nothing logged, an empty cache.\<close>

definition s0 :: state where
  "s0 = \<lparr>calls = [], logs = [], commitsPRCache = Map.empty\<rparr>"

text \<open>
  The pattern \<open>backport-to-(.+)\<close> on a label of one line: the leftmost occurrence of
  \<open>backport-to-\<close> with text after it matches, and the group is that text.
\<close>

fun after_first :: "string \<Rightarrow> string \<Rightarrow> string option" where
  "after_first pat [] = (if pat = [] then Some [] else None)"
| "after_first pat (c # cs) =
     (if prefix pat (c # cs) then Some (drop (length pat) (c # cs)) else after_first pat cs)"

definition demo_label_re :: Regexp where
  "demo_label_re =
     Regexp (\<lambda>s. case after_first ''backport-to-'' s of
                    None \<Rightarrow> []
                  | Some b \<Rightarrow> if b = [] then [] else [''backport-to-'' @ b, b])"

text \<open>The pattern \<open>^backport-to-\<close>, which has no capturing group.\<close>

definition demo_nogroup_re :: Regexp where
  "demo_nogroup_re = Regexp (\<lambda>s. if prefix ''backport-to-'' s then [''backport-to-''] else [])"

text \<open>The pattern \<open>^bug$\<close>.\<close>

definition demo_copy_re :: Regexp where
  "demo_copy_re = Regexp (\<lambda>s. if s = ''bug'' then [''bug''] else [])"

definition demo_config :: "string \<Rightarrow> string \<Rightarrow> Input" where
  "demo_config conflict merges =
     \<lparr>GitHubToken = ''token'', Committer = ''bot'', Email = ''bot@example.org'',
      Title = ''[Backport ${target_branch}] ${original_pr_title}'',
      Description = ''Backport of #${original_pr_number}'',
      CopyLabelsPattern = ''^bug$'', copyLabelRegex = Some demo_copy_re,
      LabelPattern = ''backport-to-(.+)'', labelRegex = Some demo_label_re,
      ConflictHandling = conflict, MergeCommitHandling = merges\<rparr>"

text \<open>
  \<open>git\<close> processes: \<open>git_ok\<close> lets every command succeed with no output;
  \<open>git_merges out\<close> also prints \<open>out\<close> for \<open>rev-list --reverse --merges\<close>;
  \<open>git_conflict c\<close> lets every command succeed but a \<open>cherry-pick\<close> that names the
  commit \<open>c\<close>, which exits with status 1.
\<close>

definition git_ok :: "string list \<Rightarrow> proc" where
  "git_ok args = Ran []"

definition git_merges :: "string \<Rightarrow> string list \<Rightarrow> proc" where
  "git_merges out args =
     (if take 3 args = [''rev-list'', ''--reverse'', ''--merges''] then Ran out else Ran [])"

definition git_conflict :: "string \<Rightarrow> string list \<Rightarrow> proc" where
  "git_conflict c args =
     (if take 2 args = [''cherry-pick'', ''--empty=drop''] \<and> c \<in> set args
      then ExitError ''exit status 1'' 1 else Ran [])"

section \<open>Properties\<close>

subsection \<open>Evaluation\<close>

lemmas github_defs =
  MergeKind_def GetCommit_def GetPR_def ListFiles_def ListFiles_loop.simps IsMergeCommit_def
  compareCommitFile_def invoke_def logf_def unexpected_status_def

lemmas demo_defs = demo_host_def demo_pr_def demo_commit_def demo_file_def s0_def

subsection \<open>The merge kind\<close>

lemma compareFiles_same:
  "length xs = length ys \<Longrightarrow> compareFiles xs ys = (if same_files xs ys then Squash else Rebase)"
  by (induction xs ys rule: list_induct2) (auto simp: same_files_def compareCommitFile_def)

lemma same_files_length: "same_files xs ys \<Longrightarrow> length xs = length ys"
  by (simp add: same_files_def list_all2_lengthD)

lemma same_files_nth:
  "same_files xs ys \<longleftrightarrow>
     length xs = length ys \<and>
     (\<forall>i < length xs. cf_Filename (xs ! i) = cf_Filename (ys ! i)
        \<and> cf_Additions (xs ! i) = cf_Additions (ys ! i)
        \<and> cf_Deletions (xs ! i) = cf_Deletions (ys ! i)
        \<and> cf_Changes (xs ! i) = cf_Changes (ys ! i)
        \<and> cf_Patch (xs ! i) = cf_Patch (ys ! i))"
  by (simp add: same_files_def list_all2_conv_all_nth)

text \<open>
  Claim C1. For a merged pull request with a non-empty merge-commit SHA whose merge
  commit \<open>GetCommit\<close> has fetched, \<open>MergeKind\<close> returns \<open>MergeCommit\<close> when the commit
  has more than one parent; otherwise \<open>Squash\<close> when the pull request has exactly one
  commit, whatever its files; otherwise, with the file list that \<open>ListFiles\<close> returns,
  \<open>Squash\<close> when that list and the files of the merge commit are equal element-wise in
  order (\<open>same_files\<close>: same length and, at every index, equal filename, additions,
  deletions, changes and patch), and \<open>Rebase\<close> when the lengths differ or a pair
  differs.
\<close>

theorem MergeKind_resolver:
  assumes "pr_Merged pr" and "pr_MergeCommitSHA pr \<noteq> []"
    and "GetCommit h (pr_MergeCommitSHA pr) s = (Inr mergeCommit, s1)"
  shows "(length (rc_Parents mergeCommit) > 1 \<longrightarrow> MergeKind h pr s = Some (Inr MergeCommit, s1))
    \<and> (\<not> length (rc_Parents mergeCommit) > 1 \<and> pr_Commits pr = 1
         \<longrightarrow> MergeKind h pr s = Some (Inr Squash, s1))
    \<and> (\<not> length (rc_Parents mergeCommit) > 1 \<and> pr_Commits pr \<noteq> 1
         \<and> ListFiles h pr s1 = Some (Inr files, s2)
         \<longrightarrow> MergeKind h pr s =
               Some (Inr (if same_files files (rc_Files mergeCommit) then Squash else Rebase), s2))"
  using assms
  by (auto simp: MergeKind_def IsMergeCommit_def compareFiles_same dest: same_files_length)

theorem MergeKind_resolver_witness:
  "MergeKind (demo_host (demo_pr 3 []) (demo_commit ''abc123'' [''p1'', ''p2''] []) [] [] (\<lambda>a. Ran []))
     (demo_pr 3 []) s0
   = Some (Inr MergeCommit,
       snd (GetCommit (demo_host (demo_pr 3 []) (demo_commit ''abc123'' [''p1'', ''p2''] []) [] []
              (\<lambda>a. Ran [])) ''abc123'' s0))
   \<and> MergeKind (demo_host (demo_pr 1 []) (demo_commit ''abc123'' [''p1''] [demo_file ''x'']) [demo_file ''y''] []
         (\<lambda>a. Ran [])) (demo_pr 1 []) s0
   = Some (Inr Squash,
       snd (GetCommit (demo_host (demo_pr 1 []) (demo_commit ''abc123'' [''p1''] [demo_file ''x''])
              [demo_file ''y''] [] (\<lambda>a. Ran [])) ''abc123'' s0))
   \<and> map_option fst
        (MergeKind (demo_host (demo_pr 2 []) (demo_commit ''abc123'' [''p1''] [demo_file ''x''])
           [demo_file ''x''] [] (\<lambda>a. Ran [])) (demo_pr 2 []) s0)
   = Some (Inr Squash)
   \<and> map_option fst
        (MergeKind (demo_host (demo_pr 2 []) (demo_commit ''abc123'' [''p1''] [demo_file ''x''])
           [demo_file ''y''] [] (\<lambda>a. Ran [])) (demo_pr 2 []) s0)
   = Some (Inr Rebase)"
proof -
  let ?one = "demo_commit ''abc123'' [''p1''] [demo_file ''x'']"
  let ?two = "demo_commit ''abc123'' [''p1'', ''p2''] []"
  let ?ha = "demo_host (demo_pr 3 []) ?two [] [] (\<lambda>a. Ran [])"
  let ?hb = "demo_host (demo_pr 1 []) ?one [demo_file ''y''] [] (\<lambda>a. Ran [])"
  let ?hc = "demo_host (demo_pr 2 []) ?one [demo_file ''x''] [] (\<lambda>a. Ran [])"
  let ?hd = "demo_host (demo_pr 2 []) ?one [demo_file ''y''] [] (\<lambda>a. Ran [])"
  have m: "pr_Merged (demo_pr n [])" and sha: "pr_MergeCommitSHA (demo_pr n []) \<noteq> []" for n
    by (simp_all add: demo_pr_def)
  have ga: "GetCommit ?ha (pr_MergeCommitSHA (demo_pr 3 [])) s0
             = (Inr ?two, snd (GetCommit ?ha ''abc123'' s0))"
    by (simp add: github_defs demo_defs)
  have gb: "GetCommit ?hb (pr_MergeCommitSHA (demo_pr 1 [])) s0
             = (Inr ?one, snd (GetCommit ?hb ''abc123'' s0))"
    by (simp add: github_defs demo_defs)
  have gc: "GetCommit ?hc (pr_MergeCommitSHA (demo_pr 2 [])) s0
             = (Inr ?one, snd (GetCommit ?hc ''abc123'' s0))"
    by (simp add: github_defs demo_defs)
  have gd: "GetCommit ?hd (pr_MergeCommitSHA (demo_pr 2 [])) s0
             = (Inr ?one, snd (GetCommit ?hd ''abc123'' s0))"
    by (simp add: github_defs demo_defs)
  have lc: "ListFiles ?hc (demo_pr 2 []) s
             = Some (Inr [demo_file ''x''], snd (the (ListFiles ?hc (demo_pr 2 []) s)))" for s
    by (simp add: github_defs demo_defs)
  have ld: "ListFiles ?hd (demo_pr 2 []) s
             = Some (Inr [demo_file ''y''], snd (the (ListFiles ?hd (demo_pr 2 []) s)))" for s
    by (simp add: github_defs demo_defs)
  have a: "MergeKind ?ha (demo_pr 3 []) s0 = Some (Inr MergeCommit, snd (GetCommit ?ha ''abc123'' s0))"
    using MergeKind_resolver [OF m sha ga] by (simp add: demo_commit_def)
  have b: "MergeKind ?hb (demo_pr 1 []) s0 = Some (Inr Squash, snd (GetCommit ?hb ''abc123'' s0))"
    using MergeKind_resolver [OF m sha gb] by (simp add: demo_commit_def demo_pr_def)
  have side: "\<not> 1 < length (rc_Parents ?one)" "pr_Commits (demo_pr 2 []) \<noteq> 1"
    by (simp_all add: demo_commit_def demo_pr_def)
  have "MergeKind ?hc (demo_pr 2 []) s0 =
          Some (Inr (if same_files [demo_file ''x''] (rc_Files ?one) then Squash else Rebase),
                snd (the (ListFiles ?hc (demo_pr 2 []) (snd (GetCommit ?hc ''abc123'' s0)))))"
    using MergeKind_resolver [OF m sha gc] side lc by blast
  then have c: "map_option fst (MergeKind ?hc (demo_pr 2 []) s0) = Some (Inr Squash)"
    by (simp add: demo_commit_def same_files_def)
  have "MergeKind ?hd (demo_pr 2 []) s0 =
          Some (Inr (if same_files [demo_file ''y''] (rc_Files ?one) then Squash else Rebase),
                snd (the (ListFiles ?hd (demo_pr 2 []) (snd (GetCommit ?hd ''abc123'' s0)))))"
    using MergeKind_resolver [OF m sha gd] side ld by blast
  then have d: "map_option fst (MergeKind ?hd (demo_pr 2 []) s0) = Some (Inr Rebase)"
    by (simp add: demo_commit_def same_files_def demo_file_def)
  from a b c d show ?thesis by simp
qed

subsection \<open>A merge commit without parents\<close>

text \<open>
  Claim C9, as amended. \<open>MergeKind\<close> has no case for a merge commit with zero
  parents. Such a commit is not a merge commit for \<open>IsMergeCommit\<close>, and the pull
  request is classified like any other: \<open>Squash\<close> when it has exactly one commit,
  otherwise \<open>Squash\<close> or \<open>Rebase\<close> by the comparison of the file lists.
\<close>

theorem MergeKind_orphan:
  assumes "pr_Merged pr" and "pr_MergeCommitSHA pr \<noteq> []"
    and "GetCommit h (pr_MergeCommitSHA pr) s = (Inr mergeCommit, s1)"
    and "rc_Parents mergeCommit = []"
  shows "(pr_Commits pr = 1 \<longrightarrow> MergeKind h pr s = Some (Inr Squash, s1))
    \<and> (pr_Commits pr \<noteq> 1 \<and> ListFiles h pr s1 = Some (Inr files, s2)
         \<longrightarrow> MergeKind h pr s =
               Some (Inr (if same_files files (rc_Files mergeCommit) then Squash else Rebase), s2))"
  using assms
  by (auto simp: MergeKind_def IsMergeCommit_def compareFiles_same dest: same_files_length)

text \<open>
  The claim as stated fails: for a merge commit with no parent the resolver returns
  \<open>Squash\<close> on a pull request of one commit, and \<open>Rebase\<close> on one of two commits
  whose files differ from the commit's; it reports neither an error nor \<open>MergeInvalid\<close>.
\<close>

theorem MergeKind_orphan_counterexample:
  "rc_Parents (demo_commit ''abc123'' [] [demo_file ''x'']) = []
   \<and> map_option fst
        (MergeKind (demo_host (demo_pr 1 []) (demo_commit ''abc123'' [] [demo_file ''x'']) [] [] git_ok)
           (demo_pr 1 []) s0) = Some (Inr Squash)
   \<and> map_option fst
        (MergeKind (demo_host (demo_pr 2 []) (demo_commit ''abc123'' [] [demo_file ''x''])
           [demo_file ''y''] [] git_ok) (demo_pr 2 []) s0) = Some (Inr Rebase)"
  by (simp add: github_defs demo_defs)

theorem MergeKind_orphan_witness:
  "MergeKind (demo_host (demo_pr 1 []) (demo_commit ''abc123'' [] [demo_file ''x'']) [] [] git_ok)
     (demo_pr 1 []) s0
   = Some (Inr Squash,
       snd (GetCommit (demo_host (demo_pr 1 []) (demo_commit ''abc123'' [] [demo_file ''x'']) [] []
              git_ok) ''abc123'' s0))
   \<and> map_option fst
        (MergeKind (demo_host (demo_pr 2 []) (demo_commit ''abc123'' [] [demo_file ''x''])
           [demo_file ''x''] [] git_ok) (demo_pr 2 []) s0) = Some (Inr Squash)"
proof -
  let ?mc = "demo_commit ''abc123'' [] [demo_file ''x'']"
  let ?ha = "demo_host (demo_pr 1 []) ?mc [] [] git_ok"
  let ?hb = "demo_host (demo_pr 2 []) ?mc [demo_file ''x''] [] git_ok"
  have m: "pr_Merged (demo_pr n [])" and sha: "pr_MergeCommitSHA (demo_pr n []) \<noteq> []" for n
    by (simp_all add: demo_pr_def)
  have orphan: "rc_Parents ?mc = []"
    by (simp add: demo_commit_def)
  have ga: "GetCommit ?ha (pr_MergeCommitSHA (demo_pr 1 [])) s0
             = (Inr ?mc, snd (GetCommit ?ha ''abc123'' s0))"
    by (simp add: github_defs demo_defs)
  have gb: "GetCommit ?hb (pr_MergeCommitSHA (demo_pr 2 [])) s0
             = (Inr ?mc, snd (GetCommit ?hb ''abc123'' s0))"
    by (simp add: github_defs demo_defs)
  have lb: "ListFiles ?hb (demo_pr 2 []) s
             = Some (Inr [demo_file ''x''], snd (the (ListFiles ?hb (demo_pr 2 []) s)))" for s
    by (simp add: github_defs demo_defs)
  have a: "MergeKind ?ha (demo_pr 1 []) s0 = Some (Inr Squash, snd (GetCommit ?ha ''abc123'' s0))"
    using MergeKind_orphan [OF m sha ga orphan] by (simp add: demo_pr_def)
  have ne: "pr_Commits (demo_pr 2 []) \<noteq> 1"
    by (simp add: demo_pr_def)
  have "MergeKind ?hb (demo_pr 2 []) s0 =
          Some (Inr (if same_files [demo_file ''x''] (rc_Files ?mc) then Squash else Rebase),
                snd (the (ListFiles ?hb (demo_pr 2 []) (snd (GetCommit ?hb ''abc123'' s0)))))"
    using MergeKind_orphan [OF m sha gb orphan] ne lb by blast
  then have b: "map_option fst (MergeKind ?hb (demo_pr 2 []) s0) = Some (Inr Squash)"
    by (simp add: demo_commit_def same_files_def)
  from a b show ?thesis by simp
qed

subsection \<open>Calls and evaluation\<close>

lemmas client_defs =
  CreateComment_def CreatePR_def LabelPR_def DisPatchPrCreatedEvent_call_def GetCommits_def
  GetCommits_loop.simps ceil_div_100_def

lemmas git_defs =
  runCmd_def Fetch_def Push_def Checkout_def CherryPick_def FindCommitRange_def Fields_def
  isSpace_def fmt_v_def

lemmas backport_defs =
  Run_def report_def selectCommits_def filterMergeCommits_def cherryPick_def
  cherryPick_abort_def getTargetRefs_def getLabelsToAdd_def makeBackportBranchName_def
  makeNewPullRequest_def replacePlaceholders_def listManualSteps_def manualSteps_def
  draft_msg_def abort_msg_def successBody_def MatchString_def Contains_def DeleteFunc_def
  MergeCommitHandlingAbort_def MergeCommitHandlingSkip_def ConflictHandlingAbort_def
  ConflictHandlingDraft_def

lemmas config_defs =
  demo_config_def demo_label_re_def demo_copy_re_def demo_nogroup_re_def git_ok_def
  git_merges_def git_conflict_def is_create_def

lemma logf_calls [simp]: "calls (logf lv fmt args s) = calls s"
  by (simp add: logf_def)

lemma invoke_calls [simp]: "calls (invoke c s) = calls s @ [c]"
  by (simp add: invoke_def)

lemma CreateComment_calls:
  "calls (snd (CreateComment h n body s))
   = calls s @ [Issues_CreateComment (fst (ctx_Repo h)) (snd (ctx_Repo h)) n body]"
  by (simp add: CreateComment_def Let_def split: prod.splits sum.splits)

lemma CreateComment_result:
  "fst (CreateComment h n body s)
   = (case create_comment h
             (calls s @ [Issues_CreateComment (fst (ctx_Repo h)) (snd (ctx_Repo h)) n body]) of
        Inl err \<Rightarrow> Some err
      | Inr code \<Rightarrow> if code \<noteq> 201 then Some (unexpected_status code) else None)"
  by (simp add: CreateComment_def Let_def split: prod.splits sum.splits)

text \<open>
  Claim C10. When the source pull request, once fetched, is not merged, \<open>Run\<close>
  returns, and what it returns is the result of posting the one warning comment on that
  pull request. The run makes two calls in all: the request for the pull request and
  that comment. So there is no request for the merge commit or the files (no merge-kind
  inference), no \<open>git\<close> process (no target branch is resolved, no branch is created
  or pushed) and no pull request is created.
\<close>

theorem Run_not_merged:
  assumes "event_pr_number h = Inr n" and "GetPR h n s = (Inr pr, s1)" and "\<not> pr_Merged pr"
  shows "\<exists>r s2. Run h config s = Some (Returned r, s2)
           \<and> calls s2 = calls s @ [PullRequests_Get (fst (ctx_Repo h)) (snd (ctx_Repo h)) n,
                                      Issues_CreateComment (fst (ctx_Repo h)) (snd (ctx_Repo h)) n
                                        not_merged_body]
           \<and> r = (case create_comment h (calls s2) of
                    Inl err \<Rightarrow> Some err
                  | Inr code \<Rightarrow> if code \<noteq> 201 then Some (unexpected_status code) else None)"
proof -
  let ?c = "CreateComment h n not_merged_body
              (logf Warning ''Pull request #%d is not merged, skipping backport.'' [I n] s1)"
  have "Run h config s = Some (Returned (fst ?c), snd ?c)"
    using assms by (simp add: Run_def split: prod.splits)
  moreover have "calls s1 = calls s @ [PullRequests_Get (fst (ctx_Repo h)) (snd (ctx_Repo h)) n]"
    using assms(2) by (auto simp: GetPR_def Let_def split: prod.splits sum.splits if_splits)
  then have "calls (snd ?c)
      = calls s @ [PullRequests_Get (fst (ctx_Repo h)) (snd (ctx_Repo h)) n,
                   Issues_CreateComment (fst (ctx_Repo h)) (snd (ctx_Repo h)) n not_merged_body]"
    by (simp add: CreateComment_calls)
  moreover have "fst ?c = (case create_comment h (calls (snd ?c)) of
                    Inl err \<Rightarrow> Some err
                  | Inr code \<Rightarrow> if code \<noteq> 201 then Some (unexpected_status code) else None)"
    by (simp add: CreateComment_calls CreateComment_result)
  ultimately show ?thesis by blast
qed

theorem Run_not_merged_witness:
  "\<exists>r s2. Run (demo_host ((demo_pr 1 [''backport-to-v1''])\<lparr>pr_Merged := False\<rparr>)
                (demo_commit ''abc123'' [''p1''] []) [] [] git_ok)
             (demo_config ''abort'' ''skip'') s0 = Some (Returned r, s2)
      \<and> calls s2 = [PullRequests_Get ''acme'' ''widgets'' 42,
                     Issues_CreateComment ''acme'' ''widgets'' 42 not_merged_body]
      \<and> r = None"
proof -
  let ?pr = "(demo_pr 1 [''backport-to-v1''])\<lparr>pr_Merged := False\<rparr>"
  let ?h = "demo_host ?pr (demo_commit ''abc123'' [''p1''] []) [] [] git_ok"
  have n: "event_pr_number ?h = Inr 42"
    by (simp add: demo_defs)
  have g: "GetPR ?h 42 s0 = (Inr ?pr, snd (GetPR ?h 42 s0))"
    by (simp add: github_defs demo_defs)
  have m: "\<not> pr_Merged ?pr"
    by simp
  from Run_not_merged [OF n g m, of "demo_config ''abort'' ''skip''"]
  show ?thesis
    by (simp add: demo_defs)
qed

lemmas string_defs = itoa_def utoa.simps digit_def warning_sign_def

subsection \<open>Runs that end early\<close>

text \<open>
  Claim C3 asks that a run whose selection of commits is empty ends by posting a
  comment and returning no error, and that no element of the selection is read before
  it is known to be non-empty. The code reads \<open>commitSHAs[0]\<close> before it tests the
  length. Here the pull request is merged by a commit with two parents and has a commit
  count of 0, so that \<open>GetCommits\<close> returns no commit: the run panics after three
  calls and posts no comment.
\<close>

theorem Run_empty_selection_panics:
  "map_option (\<lambda>(r, s). (r, calls s))
     (Run (demo_host (demo_pr 0 [''backport-to-v1'']) (demo_commit ''abc123'' [''p1'', ''p2''] [])
             [] [] git_ok)
        (demo_config ''abort'' ''skip'') s0)
   = Some (Panicked ''runtime error: index out of range [0] with length 0'',
           [PullRequests_Get ''acme'' ''widgets'' 42,
            Exec_git [''fetch'', ''--depth'', ''2'', ''origin'', ''v1''],
            Repositories_GetCommit ''acme'' ''widgets'' ''abc123''])"
  by (simp add: github_defs client_defs git_defs backport_defs demo_defs config_defs string_defs)

subsection \<open>Merge commits in the selected range\<close>

text \<open>
  Whatever the value of \<open>MergeCommitHandling\<close>, unless it is \<open>abort\<close>, the commits
  that \<open>git rev-list --merges\<close> reports are removed from the selection.
\<close>

lemma filterMergeCommits_drops:
  assumes "commitSHAs \<noteq> []"
    and "FindCommitRange h [''--merges'', commitSHAs ! 0 @ ''^..'' @ commitSHAs ! (length commitSHAs - 1)] s
         = (Inr mergeCommitSHAs, s1)"
    and "MergeCommitHandling config \<noteq> MergeCommitHandlingAbort"
  shows "fst (filterMergeCommits h config n commitSHAs s)
         = Inr (filter (\<lambda>c. c \<notin> set mergeCommitSHAs) commitSHAs)"
proof (cases "mergeCommitSHAs = []")
  case True
  then show ?thesis using assms by (simp add: filterMergeCommits_def)
next
  case False
  then show ?thesis
    using assms by (simp add: filterMergeCommits_def DeleteFunc_def Contains_def)
qed

text \<open>
  Claim C2 asks that a value of \<open>MergeCommitHandling\<close> other than \<open>skip\<close> and
  \<open>abort\<close> keeps the merge commits of the range. The code removes them for every
  value but \<open>abort\<close>. Here the value is \<open>include\<close>, the selection is
  \<open>c1, m1, c2\<close> and \<open>git rev-list --merges\<close> reports \<open>m1\<close>: the list that is kept
  is \<open>c1, c2\<close>, and in the whole run \<open>git cherry-pick\<close> is started without \<open>m1\<close>.
\<close>

theorem Run_include_drops_merge_commits:
  "fst (filterMergeCommits
          (demo_host (demo_pr 3 [''backport-to-v1'']) (demo_commit ''abc123'' [''p1'', ''p2''] []) []
             [] (git_merges ''m1''))
          (demo_config ''abort'' ''include'') 42 [''c1'', ''m1'', ''c2''] s0)
   = Inr [''c1'', ''c2'']
   \<and> map_option (\<lambda>(r, s). (r, calls s))
     (Run (demo_host (demo_pr 3 [''backport-to-v1'']) (demo_commit ''abc123'' [''p1'', ''p2''] []) []
             [demo_commit ''c1'' [''p1''] [], demo_commit ''m1'' [''c1'', ''x''] [],
              demo_commit ''c2'' [''m1''] []]
             (git_merges ''m1''))
        (demo_config ''abort'' ''include'') s0)
   = Some (Returned None,
           [PullRequests_Get ''acme'' ''widgets'' 42,
            Exec_git [''fetch'', ''--depth'', ''2'', ''origin'', ''v1''],
            Repositories_GetCommit ''acme'' ''widgets'' ''abc123'',
            PullRequests_ListCommits ''acme'' ''widgets'' 42 0,
            Exec_git [''rev-list'', ''--reverse'', ''--merges'', ''c1^..c2''],
            Exec_git [''switch'', ''--create'', ''backport-42-to-v1'', ''origin/v1''],
            Exec_git [''cherry-pick'', ''--empty=drop'', ''--allow-empty'', ''-x'',
                      ''c1'', ''c2'', ''c1'', ''c2''],
            Exec_git [''push'', ''--set-upstream'', ''origin'', ''backport-42-to-v1''],
            PullRequests_Create ''acme'' ''widgets''
              \<lparr>np_Title = ''[Backport v1] Fix'', np_Head = ''backport-42-to-v1'',
                 np_Base = ''v1'', np_Body = ''Backport of #42'',
                 np_MaintainerCanModify = True, np_Draft = False\<rparr>,
            DisPatchPrCreatedEvent
              \<lparr>pr_Number = 101, pr_Merged = False, pr_MergeCommitSHA = [], pr_Commits = 0,
                 pr_ChangedFiles = 0, pr_Labels = [], pr_Title = [], pr_Body = [],
                 pr_Draft = False\<rparr>,
            Issues_CreateComment ''acme'' ''widgets'' 42
              (successBody [''`v1`''] ''- #101\<newline>'')])"
  by (simp add: github_defs client_defs git_defs backport_defs demo_defs config_defs string_defs)

subsection \<open>Labels\<close>

text \<open>
  The copy list is as the claim has it: the labels, in order, that match the copy
  pattern and do not match the pattern of the target branches.
\<close>

lemma getLabelsToAdd_loop_filter:
  "fst (getLabelsToAdd_loop config copyRe labels acc s)
   = acc @ filter (\<lambda>l. MatchString copyRe l
                      \<and> \<not> (case labelRegex config of None \<Rightarrow> False | Some re \<Rightarrow> MatchString re l))
             labels"
  by (induction labels arbitrary: acc s) auto

lemma getLabelsToAdd_copy_list:
  assumes "copyLabelRegex config = Some copyRe"
  shows "fst (getLabelsToAdd config pr s)
         = filter (\<lambda>l. MatchString copyRe l
                      \<and> \<not> (case labelRegex config of None \<Rightarrow> False | Some re \<Rightarrow> MatchString re l))
             (pr_Labels pr)"
  using assms by (cases "pr_Labels pr = []") (simp_all add: getLabelsToAdd_def getLabelsToAdd_loop_filter)

text \<open>
  Claim C5 asks that the labels to copy are put on every pull request that is created.
  The code passes the source pull request to \<open>LabelPR\<close>. Here the source is pull
  request 42 with the labels \<open>backport-to-v1\<close> and \<open>bug\<close>, the copy pattern matches
  \<open>bug\<close>, and the run creates pull request 101: the one request that adds labels
  names number 42 (and has owner and repository exchanged, see \<open>LabelPR\<close>).
\<close>

theorem Run_labels_source_pr:
  "map_option (\<lambda>(r, s). (r, calls s))
     (Run (demo_host (demo_pr 1 [''backport-to-v1'', ''bug'']) (demo_commit ''abc123'' [''p1''] [])
             [] [] git_ok)
        (demo_config ''abort'' ''skip'') s0)
   = Some (Returned None,
           [PullRequests_Get ''acme'' ''widgets'' 42,
            Exec_git [''fetch'', ''--depth'', ''2'', ''origin'', ''v1''],
            Repositories_GetCommit ''acme'' ''widgets'' ''abc123'',
            Exec_git [''rev-list'', ''--reverse'', ''--merges'', ''abc123^..abc123''],
            Exec_git [''switch'', ''--create'', ''backport-42-to-v1'', ''origin/v1''],
            Exec_git [''cherry-pick'', ''--empty=drop'', ''--allow-empty'', ''-x'',
                      ''abc123'', ''abc123''],
            Exec_git [''push'', ''--set-upstream'', ''origin'', ''backport-42-to-v1''],
            PullRequests_Create ''acme'' ''widgets''
              \<lparr>np_Title = ''[Backport v1] Fix'', np_Head = ''backport-42-to-v1'',
                 np_Base = ''v1'', np_Body = ''Backport of #42'',
                 np_MaintainerCanModify = True, np_Draft = False\<rparr>,
            Issues_AddLabelsToIssue ''widgets'' ''acme'' 42 [''bug''],
            DisPatchPrCreatedEvent
              \<lparr>pr_Number = 101, pr_Merged = False, pr_MergeCommitSHA = [], pr_Commits = 0,
                 pr_ChangedFiles = 0, pr_Labels = [], pr_Title = [], pr_Body = [],
                 pr_Draft = False\<rparr>,
            Issues_CreateComment ''acme'' ''widgets'' 42
              (successBody [''`v1`''] ''- #101\<newline>'')])"
  by (simp add: github_defs client_defs git_defs backport_defs demo_defs config_defs string_defs)

subsection \<open>Target branches\<close>

lemma runCmd_logs: "set (logs s) \<subseteq> set (logs (snd (runCmd h args s)))"
  by (auto simp: runCmd_def logf_def invoke_def Let_def split: proc.splits)

lemma Fetch_logs: "set (logs s) \<subseteq> set (logs (snd (Fetch h ref depth s)))"
proof -
  have "set (logs s) \<subseteq> set (logs (logf Info ''Fetching from remote origin, ref %s, depth %d''
                                     [S ref, I depth] s))"
    by (auto simp: logf_def)
  then show ?thesis
    unfolding Fetch_def using runCmd_logs by blast
qed

lemma logf_logs: "set (logs s) \<subseteq> set (logs (logf lv fmt args s))"
  by (auto simp: logf_def)

lemma getTargetRefs_loop_logs:
  "set (logs s) \<subseteq> set (logs (snd (getTargetRefs_loop h config re labels branches s)))"
proof (induction labels arbitrary: branches s)
  case Nil
  then show ?case by simp
next
  case (Cons label labels)
  show ?case
  proof (cases "Fetch h (FindStringSubmatch re label ! 1) 2 s")
    case (Pair r s1)
    have "set (logs s) \<subseteq> set (logs s1)"
      using Fetch_logs [of s h "FindStringSubmatch re label ! 1" 2] Pair by simp
    then show ?thesis
      using Pair Cons.IH logf_logs
      by (auto simp: Let_def split: option.splits) blast+
  qed
qed

lemma getTargetRefs_loop_subseq:
  "\<exists>kept. fst (getTargetRefs_loop h config re labels branches s) = branches @ kept
          \<and> subseq kept (captured re labels)"
proof (induction labels arbitrary: branches s)
  case Nil
  then show ?case by (simp add: captured_def)
next
  case (Cons label labels)
  let ?m = "FindStringSubmatch re label"
  show ?case
  proof (cases "length ?m < 2")
    case True
    then have "captured re (label # labels) = captured re labels"
      by (simp add: captured_def)
    then show ?thesis
      using True Cons.IH by (auto simp: Let_def)
  next
    case False
    then have c: "captured re (label # labels) = (?m ! 1) # captured re labels"
      by (simp add: captured_def)
    obtain r s1 where f: "Fetch h (?m ! 1) 2 s = (r, s1)"
      by (cases "Fetch h (?m ! 1) 2 s")
    show ?thesis
    proof (cases r)
      case None
      from Cons.IH [of "branches @ [?m ! 1]"] obtain kept where
        "fst (getTargetRefs_loop h config re labels (branches @ [?m ! 1])
               (logf Info ''Label <%s> matches pattern <%s>, adding branch <%s>''
                  [S label, S (LabelPattern config), S (?m ! 1)] s1))
         = (branches @ [?m ! 1]) @ kept" and "subseq kept (captured re labels)"
        by blast
      then show ?thesis
        using False f None c by (auto simp: Let_def intro!: exI [of _ "(?m ! 1) # kept"])
    next
      case (Some err)
      from Cons.IH [of branches] obtain kept where
        "fst (getTargetRefs_loop h config re labels branches
               (logf Warning
                  ''Branch <%s> extracted from label <%s> does not exist in repository %s/%s. %v''
                  [S (?m ! 1), S label, S (fst (ctx_Repo h)), S (snd (ctx_Repo h)), E err] s1))
         = branches @ kept" and "subseq kept (captured re labels)"
        by blast
      then show ?thesis
        using False f Some c by (auto simp: Let_def intro!: exI [of _ kept])
    qed
  qed
qed

lemma Fetch_ok:
  assumes "\<forall>cs ref. \<exists>out.
             git_proc h (cs @ [Exec_git [''fetch'', ''--depth'', ''2'', ''origin'', ref]]) = Ran out"
  shows "fst (Fetch h ref 2 s) = None"
proof -
  obtain out where
    "git_proc h (calls s @ [Exec_git [''fetch'', ''--depth'', ''2'', ''origin'', ref]]) = Ran out"
    using assms by blast
  then show ?thesis
    by (simp add: Fetch_def runCmd_def Let_def itoa_def utoa.simps digit_def)
qed

lemma getTargetRefs_loop_all:
  assumes "\<forall>cs ref. \<exists>out.
             git_proc h (cs @ [Exec_git [''fetch'', ''--depth'', ''2'', ''origin'', ref]]) = Ran out"
  shows "fst (getTargetRefs_loop h config re labels branches s) = branches @ captured re labels"
proof (induction labels arbitrary: branches s)
  case Nil
  then show ?case by (simp add: captured_def)
next
  case (Cons label labels)
  let ?m = "FindStringSubmatch re label"
  obtain s1 where f: "Fetch h (?m ! 1) 2 s = (None, s1)"
    using Fetch_ok [OF assms, of "?m ! 1" s] by (cases "Fetch h (?m ! 1) 2 s") auto
  show ?case
    using f Cons.IH by (auto simp: Let_def captured_def)
qed

lemma getTargetRefs_loop_warns:
  assumes "label \<in> set labels" and "length (FindStringSubmatch re label) = 1"
  shows "no_group_warning config label
           \<in> set (logs (snd (getTargetRefs_loop h config re labels branches s)))"
  using assms
proof (induction labels arbitrary: branches s)
  case Nil
  then show ?case by simp
next
  case (Cons l labels)
  show ?case
  proof (cases "l = label")
    case True
    let ?s = "logf Warning ''Label <%s> matches pattern <%s> but has no capturing group''
                [S label, S (LabelPattern config)] s"
    have "no_group_warning config label \<in> set (logs ?s)"
      by (simp add: logf_def no_group_warning_def)
    moreover have "set (logs ?s)
        \<subseteq> set (logs (snd (getTargetRefs_loop h config re labels branches ?s)))"
      by (rule getTargetRefs_loop_logs)
    ultimately have "no_group_warning config label
        \<in> set (logs (snd (getTargetRefs_loop h config re labels branches ?s)))"
      by blast
    then show ?thesis
      using True Cons.prems(2) by (auto simp: Let_def)
  next
    case False
    then have "label \<in> set labels" using Cons.prems(1) by simp
    note ih = Cons.IH [OF this Cons.prems(2)]
    show ?thesis
    proof (cases "Fetch h (FindStringSubmatch re l ! 1) 2 s")
      case (Pair r s1)
      then show ?thesis using ih by (auto simp: Let_def split: option.splits)
    qed
  qed
qed

text \<open>
  Claim C4, as amended. With a label pattern configured, the branches that
  \<open>getTargetRefs\<close> returns are captured texts of labels whose match has a capturing
  group, in the order of the labels: a subsequence of \<open>captured\<close>, and the whole of it
  when every \<open>git fetch\<close> of a branch succeeds. A label whose match has no capturing
  group gives no branch, and a warning is logged for it. Nothing removes duplicates.
\<close>

theorem getTargetRefs_branches:
  assumes "labelRegex config = Some re"
  shows "subseq (fst (getTargetRefs h config pr s)) (captured re (pr_Labels pr))
    \<and> ((\<forall>cs ref. \<exists>out.
           git_proc h (cs @ [Exec_git [''fetch'', ''--depth'', ''2'', ''origin'', ref]]) = Ran out)
         \<longrightarrow> fst (getTargetRefs h config pr s) = captured re (pr_Labels pr))
    \<and> (\<forall>label \<in> set (pr_Labels pr). length (FindStringSubmatch re label) = 1
         \<longrightarrow> no_group_warning config label \<in> set (logs (snd (getTargetRefs h config pr s))))"
proof (cases "pr_Labels pr = []")
  case True
  then show ?thesis using assms by (simp add: getTargetRefs_def captured_def)
next
  case False
  let ?s = "logf Info ''Finding target branches matching pattern: %s'' [S (LabelPattern config)] s"
  have eq: "getTargetRefs h config pr s = getTargetRefs_loop h config re (pr_Labels pr) [] ?s"
    using assms False by (simp add: getTargetRefs_def)
  have "subseq (fst (getTargetRefs h config pr s)) (captured re (pr_Labels pr))"
    using getTargetRefs_loop_subseq [of h config re "pr_Labels pr" "[]" ?s] eq by auto
  moreover have "(\<forall>cs ref. \<exists>out.
           git_proc h (cs @ [Exec_git [''fetch'', ''--depth'', ''2'', ''origin'', ref]]) = Ran out)
         \<longrightarrow> fst (getTargetRefs h config pr s) = captured re (pr_Labels pr)"
    using getTargetRefs_loop_all [of h config re "pr_Labels pr" "[]" ?s] eq by auto
  moreover have "\<forall>label \<in> set (pr_Labels pr). length (FindStringSubmatch re label) = 1
         \<longrightarrow> no_group_warning config label \<in> set (logs (snd (getTargetRefs h config pr s)))"
    using getTargetRefs_loop_warns eq by auto
  ultimately show ?thesis by blast
qed

text \<open>
  The claim as stated fails where it excludes duplicates: two distinct labels from
  which the pattern captures the same text give that branch twice.
\<close>

theorem getTargetRefs_branches_counterexample:
  "''backport-to-v1'' \<noteq> ''also-backport-to-v1''
   \<and> fst (getTargetRefs (demo_host (demo_pr 1 []) (demo_commit ''abc123'' [''p1''] []) [] [] git_ok)
            (demo_config ''abort'' ''skip'')
            (demo_pr 1 [''backport-to-v1'', ''also-backport-to-v1'']) s0) = [''v1'', ''v1'']
   \<and> \<not> distinct
         (fst (getTargetRefs
                 (demo_host (demo_pr 1 []) (demo_commit ''abc123'' [''p1''] []) [] [] git_ok)
                 (demo_config ''abort'' ''skip'')
                 (demo_pr 1 [''backport-to-v1'', ''also-backport-to-v1'']) s0))"
  by (simp add: github_defs client_defs git_defs backport_defs demo_defs config_defs string_defs)

theorem getTargetRefs_branches_witness:
  "fst (getTargetRefs (demo_host (demo_pr 1 []) (demo_commit ''abc123'' [''p1''] []) [] [] git_ok)
          (demo_config ''abort'' ''skip'')
          (demo_pr 1 [''backport-to-v2'', ''bug'', ''backport-to-v1'']) s0) = [''v2'', ''v1'']
   \<and> fst (getTargetRefs (demo_host (demo_pr 1 []) (demo_commit ''abc123'' [''p1''] []) [] [] git_ok)
          ((demo_config ''abort'' ''skip'')\<lparr>labelRegex := Some demo_nogroup_re\<rparr>)
          (demo_pr 1 [''backport-to-v2'', ''bug'']) s0) = []
   \<and> no_group_warning ((demo_config ''abort'' ''skip'')\<lparr>labelRegex := Some demo_nogroup_re\<rparr>)
         ''backport-to-v2''
       \<in> set (logs (snd (getTargetRefs
            (demo_host (demo_pr 1 []) (demo_commit ''abc123'' [''p1''] []) [] [] git_ok)
            ((demo_config ''abort'' ''skip'')\<lparr>labelRegex := Some demo_nogroup_re\<rparr>)
            (demo_pr 1 [''backport-to-v2'', ''bug'']) s0)))"
proof -
  let ?h = "demo_host (demo_pr 1 []) (demo_commit ''abc123'' [''p1''] []) [] [] git_ok"
  let ?c = "demo_config ''abort'' ''skip''"
  let ?n = "?c\<lparr>labelRegex := Some demo_nogroup_re\<rparr>"
  have ok: "\<forall>cs ref. \<exists>out.
      git_proc ?h (cs @ [Exec_git [''fetch'', ''--depth'', ''2'', ''origin'', ref]]) = Ran out"
    by (simp add: demo_host_def git_ok_def)
  have rc: "labelRegex ?c = Some demo_label_re" and rn: "labelRegex ?n = Some demo_nogroup_re"
    by (simp_all add: demo_config_def)
  have a: "fst (getTargetRefs ?h ?c (demo_pr 1 [''backport-to-v2'', ''bug'', ''backport-to-v1'']) s0)
           = [''v2'', ''v1'']"
    using getTargetRefs_branches [OF rc, of ?h "demo_pr 1 [''backport-to-v2'', ''bug'', ''backport-to-v1'']" s0]
      ok
    by (simp add: captured_def demo_pr_def demo_label_re_def)
  have b: "fst (getTargetRefs ?h ?n (demo_pr 1 [''backport-to-v2'', ''bug'']) s0) = []"
    using getTargetRefs_branches [OF rn, of ?h "demo_pr 1 [''backport-to-v2'', ''bug'']" s0] ok
    by (simp add: captured_def demo_pr_def demo_nogroup_re_def)
  have c: "no_group_warning ?n ''backport-to-v2''
        \<in> set (logs (snd (getTargetRefs ?h ?n (demo_pr 1 [''backport-to-v2'', ''bug'']) s0)))"
    using getTargetRefs_branches [OF rn, of ?h "demo_pr 1 [''backport-to-v2'', ''bug'']" s0]
    by (simp add: demo_pr_def demo_nogroup_re_def)
  from a b c show ?thesis by simp
qed

subsection \<open>A failed replay under the abort policy\<close>

lemma runCmd_calls: "calls (snd (runCmd h args s)) = calls s @ [Exec_git args]"
  by (simp add: runCmd_def Let_def split: proc.splits)

lemma CherryPick_abort_calls:
  assumes "CherryPick h False commitSHAs s = (Some err, s1)"
  shows "calls s1 = calls s @ [Exec_git ([''cherry-pick'', ''--empty=drop'', ''--allow-empty'', ''-x'']
                                          @ commitSHAs @ commitSHAs),
                               Exec_git [''cherry-pick'', ''--abort'']]"
proof -
  let ?cmd = "[''cherry-pick'', ''--empty=drop'', ''--allow-empty'', ''-x''] @ commitSHAs"
  let ?s1 = "logf Info ''Cherry-picking commits using git %v'' [L ?cmd] s"
  obtain r s2 where run: "runCmd h (?cmd @ commitSHAs) ?s1 = (r, s2)"
    by (cases "runCmd h (?cmd @ commitSHAs) ?s1")
  then have c2: "calls s2 = calls s @ [Exec_git (?cmd @ commitSHAs)]"
    using runCmd_calls [of h "?cmd @ commitSHAs" ?s1] by simp
  obtain r' s4 where ab: "runCmd h [''cherry-pick'', ''--abort''] s2 = (r', s4)"
    by (cases "runCmd h [''cherry-pick'', ''--abort''] s2")
  then have c4: "calls s4 = calls s2 @ [Exec_git [''cherry-pick'', ''--abort'']]"
    using runCmd_calls [of h "[''cherry-pick'', ''--abort'']" s2] by simp
  from assms run ab have "calls s1 = calls s4"
    by (auto simp: CherryPick_def Let_def split: option.splits)
  with c2 c4 show ?thesis by simp
qed

lemma names_abort_msg: "names (abort_msg targetRef) targetRef"
  unfolding names_def abort_msg_def
  by (metis append.assoc sublist_appendI)

text \<open>
  Claim C6, as amended. Under \<open>ConflictHandlingAbort\<close>, when the \<open>git cherry-pick\<close>
  of the commit list fails (with a conflict or otherwise), \<open>cherryPick\<close> returns no
  pull request and makes three calls in all: the pick, \<open>git cherry-pick --abort\<close> and
  one comment on the source pull request. That comment names the target branch; its
  text does not depend on the commits. So nothing is pushed and no pull request is
  created, and no call deletes the local branch that \<open>Run\<close> had created.
\<close>

theorem cherryPick_abort_conflict:
  assumes "ConflictHandling config = ConflictHandlingAbort"
    and "CherryPick h False commitSHAs s = (Some err, s1)"
  shows "fst (cherryPick h config srcPr targetRef backportRef commitSHAs s) = None
    \<and> calls (snd (cherryPick h config srcPr targetRef backportRef commitSHAs s))
        = calls s @ [Exec_git ([''cherry-pick'', ''--empty=drop'', ''--allow-empty'', ''-x'']
                                 @ commitSHAs @ commitSHAs),
                     Exec_git [''cherry-pick'', ''--abort''],
                     Issues_CreateComment (fst (ctx_Repo h)) (snd (ctx_Repo h)) (pr_Number srcPr)
                       (abort_msg targetRef)]
    \<and> names (abort_msg targetRef) targetRef"
proof -
  let ?c = "CreateComment h (pr_Number srcPr) (abort_msg targetRef)
              (logf Error ''Failed to cherry pick commits: %v'' [E err] s1)"
  have r: "fst (cherryPick h config srcPr targetRef backportRef commitSHAs s) = None"
    using assms by (simp add: cherryPick_def cherryPick_abort_def split: prod.splits option.splits)
  have "calls (snd (cherryPick h config srcPr targetRef backportRef commitSHAs s)) = calls (snd ?c)"
    using assms by (simp add: cherryPick_def cherryPick_abort_def split: prod.splits option.splits)
  then have "calls (snd (cherryPick h config srcPr targetRef backportRef commitSHAs s))
      = calls s1 @ [Issues_CreateComment (fst (ctx_Repo h)) (snd (ctx_Repo h)) (pr_Number srcPr)
                      (abort_msg targetRef)]"
    by (simp add: CreateComment_calls)
  with r CherryPick_abort_calls [OF assms(2)] names_abort_msg show ?thesis
    by simp
qed

text \<open>
  The claim as stated fails where the comment is to name the conflicting commit. In
  this run the pick of \<open>c1\<close> and \<open>c2\<close> onto \<open>v1\<close> conflicts at \<open>c2\<close>: the comment on
  pull request 42 does not contain \<open>c2\<close>. The branch \<open>backport-42-to-v1\<close> that
  \<open>git switch --create\<close> made is deleted by no later call; it was never pushed.
\<close>

theorem cherryPick_abort_conflict_counterexample:
  "map_option (\<lambda>(r, s). (r, calls s))
     (Run (demo_host (demo_pr 2 [''backport-to-v1'']) (demo_commit ''abc123'' [''p1'', ''p2''] []) []
             [demo_commit ''c1'' [''p1''] [], demo_commit ''c2'' [''c1''] []] (git_conflict ''c2''))
        (demo_config ''abort'' ''skip'') s0)
   = Some (Returned None,
           [PullRequests_Get ''acme'' ''widgets'' 42,
            Exec_git [''fetch'', ''--depth'', ''2'', ''origin'', ''v1''],
            Repositories_GetCommit ''acme'' ''widgets'' ''abc123'',
            PullRequests_ListCommits ''acme'' ''widgets'' 42 0,
            Exec_git [''rev-list'', ''--reverse'', ''--merges'', ''c1^..c2''],
            Exec_git [''switch'', ''--create'', ''backport-42-to-v1'', ''origin/v1''],
            Exec_git [''cherry-pick'', ''--empty=drop'', ''--allow-empty'', ''-x'',
                      ''c1'', ''c2'', ''c1'', ''c2''],
            Exec_git [''cherry-pick'', ''--abort''],
            Issues_CreateComment ''acme'' ''widgets'' 42 (abort_msg ''v1''),
            Issues_CreateComment ''acme'' ''widgets'' 42 nothing_created_body])
   \<and> \<not> names (abort_msg ''v1'') ''c2''"
proof -
  have "\<not> names (abort_msg ''v1'') ''c2''"
    unfolding names_def abort_msg_def warning_sign_def by code_simp
  then show ?thesis
    by (simp add: github_defs client_defs git_defs backport_defs demo_defs config_defs string_defs)
qed

theorem cherryPick_abort_conflict_witness:
  "fst (cherryPick (demo_host (demo_pr 2 []) (demo_commit ''abc123'' [''p1'', ''p2''] []) [] []
                     (git_conflict ''c2''))
          (demo_config ''abort'' ''skip'') (demo_pr 2 []) ''v1'' ''backport-42-to-v1''
          [''c1'', ''c2''] s0) = None
   \<and> calls (snd (cherryPick (demo_host (demo_pr 2 []) (demo_commit ''abc123'' [''p1'', ''p2''] []) []
                     [] (git_conflict ''c2''))
          (demo_config ''abort'' ''skip'') (demo_pr 2 []) ''v1'' ''backport-42-to-v1''
          [''c1'', ''c2''] s0))
     = [Exec_git [''cherry-pick'', ''--empty=drop'', ''--allow-empty'', ''-x'',
                  ''c1'', ''c2'', ''c1'', ''c2''],
        Exec_git [''cherry-pick'', ''--abort''],
        Issues_CreateComment ''acme'' ''widgets'' 42 (abort_msg ''v1'')]
   \<and> names (abort_msg ''v1'') ''v1''"
proof -
  let ?h = "demo_host (demo_pr 2 []) (demo_commit ''abc123'' [''p1'', ''p2''] []) [] []
              (git_conflict ''c2'')"
  have a: "ConflictHandling (demo_config ''abort'' ''skip'') = ConflictHandlingAbort"
    by (simp add: demo_config_def ConflictHandlingAbort_def)
  have p: "CherryPick ?h False [''c1'', ''c2''] s0
           = (Some (Wrap (''failed to cherry-pick commits '' @ fmt_v [''c1'', ''c2''])
                      (ErrGitOp ''git cherry-pick --empty=drop --allow-empty -x c1 c2 c1 c2''
                         (Opaque ''exit status 1'') 1)),
              snd (CherryPick ?h False [''c1'', ''c2''] s0))"
    by (simp add: git_defs demo_defs config_defs invoke_def logf_def)
  from cherryPick_abort_conflict [OF a p, of "demo_pr 2 []" "''v1''" "''backport-42-to-v1''"]
  show ?thesis
    by (simp add: demo_defs)
qed

subsection \<open>A conflict under the draft policy\<close>

lemma cherryPick_draft_skip:
  "clean_picks h targetRef done s = Some si \<Longrightarrow>
   cherryPick_draft h config srcPr targetRef backportRef (done @ rest) s
   = cherryPick_draft h config srcPr targetRef backportRef rest si"
proof (induction "done" arbitrary: s)
  case Nil
  then show ?case by simp
next
  case (Cons c cs)
  obtain r s1 where p: "CherryPick h True [c] s = (r, s1)"
    by (cases "CherryPick h True [c] s")
  with Cons.prems have r: "r = None"
    by (cases r) auto
  with p Cons.prems have
    "clean_picks h targetRef cs
       (logf Info ''Successfully cherry-picked commit %s to branch %s'' [S c, S targetRef] s1)
     = Some si"
    by simp
  from Cons.IH [OF this] p r show ?case by simp
qed

lemma draft_msg_steps:
  "\<exists>second. draft_msg commitSHA targetRef backportRef remaining
             = recovery_msg commitSHA targetRef (recovery_steps backportRef second remaining)"
  by (auto simp: draft_msg_def recovery_msg_def recovery_steps_def listManualSteps_def
      manualSteps_def Let_def)

text \<open>
  Claim C7, as amended. Under \<open>ConflictHandlingDraft\<close>, when the commits before
  index \<open>i\<close> are picked cleanly, the pick of commit \<open>i\<close> fails with a conflict, the
  push succeeds and the draft pull request is created, \<open>cherryPick\<close> returns that pull
  request after posting one message twice: on the source pull request, then on the
  draft. The message holds eight commands in this order: \<open>git fetch origin\<close> of the
  backport branch, \<open>git worktree add --checkout\<close>, \<open>cd\<close> into the worktree,
  \<open>git reset --hard HEAD^\<close> at every index, \<open>git cherry-pick -x\<close> of the commits
  from index \<open>i\<close> on, \<open>git push --force\<close>, \<open>cd -\<close> and \<open>git worktree remove\<close>.
\<close>

theorem cherryPick_draft_conflict:
  assumes "ConflictHandling config = ConflictHandlingDraft"
    and "i < length commitSHAs"
    and "clean_picks h targetRef (take i commitSHAs) s = Some si"
    and "CherryPick h True [commitSHAs ! i] si = (Some err, s1)"
    and "IsConflictErr err"
    and "Push h backportRef
           (logf Warning
              ''Conflict occurred while cherry-picking commit %s to branch %s, trying to prepare for manual backport.''
              [S (commitSHAs ! i), S targetRef] s1) = (None, s2)"
    and "CreatePR h (makeNewPullRequest config srcPr targetRef backportRef True) s2 = (Inr newPr, s3)"
  shows "\<exists>second.
      fst (cherryPick h config srcPr targetRef backportRef commitSHAs s) = Some newPr
    \<and> calls (snd (cherryPick h config srcPr targetRef backportRef commitSHAs s))
        = calls s3 @
          [Issues_CreateComment (fst (ctx_Repo h)) (snd (ctx_Repo h)) (pr_Number srcPr)
             (recovery_msg (commitSHAs ! i) targetRef
                (recovery_steps backportRef second (drop i commitSHAs))),
           Issues_CreateComment (fst (ctx_Repo h)) (snd (ctx_Repo h)) (pr_Number newPr)
             (recovery_msg (commitSHAs ! i) targetRef
                (recovery_steps backportRef second (drop i commitSHAs)))]"
proof -
  let ?c = "commitSHAs ! i"
  let ?rest = "drop (Suc i) commitSHAs"
  let ?msg = "draft_msg ?c targetRef backportRef (?c # ?rest)"
  let ?c1 = "CreateComment h (pr_Number srcPr) ?msg s3"
  let ?s4 = "case fst ?c1 of None \<Rightarrow> snd ?c1
             | Some err' \<Rightarrow> logf Error ''Failed to create comment on PR #%d: %v''
                                [I (pr_Number srcPr), E err'] (snd ?c1)"
  let ?c2 = "CreateComment h (pr_Number newPr) ?msg ?s4"
  let ?s5 = "case fst ?c2 of None \<Rightarrow> snd ?c2
             | Some err' \<Rightarrow> logf Error ''Failed to create comment on draft PR #%d: %v''
                                [I (pr_Number newPr), E err'] (snd ?c2)"
  have split: "commitSHAs = take i commitSHAs @ ?c # ?rest"
    using assms(2) by (simp add: id_take_nth_drop)
  have dr: "drop i commitSHAs = ?c # ?rest"
    using assms(2) by (simp add: Cons_nth_drop_Suc)
  have "cherryPick_draft h config srcPr targetRef backportRef commitSHAs s
        = cherryPick_draft h config srcPr targetRef backportRef (?c # ?rest) si"
    using cherryPick_draft_skip [OF assms(3), of config srcPr backportRef "?c # ?rest"] split
    by simp
  also have "\<dots> = (Return (Some newPr), ?s5)"
    using assms(4-7) by (simp add: case_prod_beta)
  finally have d: "cherryPick_draft h config srcPr targetRef backportRef commitSHAs s
                   = (Return (Some newPr), ?s5)" .
  have ne: "ConflictHandling config \<noteq> ConflictHandlingAbort"
    using assms(1) by (simp add: ConflictHandlingDraft_def ConflictHandlingAbort_def)
  have cp: "cherryPick h config srcPr targetRef backportRef commitSHAs s = (Some newPr, ?s5)"
    using d ne assms(1) by (simp add: cherryPick_def)
  have c4: "calls ?s4 = calls s3 @ [Issues_CreateComment (fst (ctx_Repo h)) (snd (ctx_Repo h))
                                        (pr_Number srcPr) ?msg]"
    by (simp add: CreateComment_calls split: option.splits)
  have c5: "calls ?s5 = calls ?s4 @ [Issues_CreateComment (fst (ctx_Repo h)) (snd (ctx_Repo h))
                                        (pr_Number newPr) ?msg]"
    by (simp only: CreateComment_calls logf_calls split: option.splits) simp
  obtain second where m: "?msg = recovery_msg ?c targetRef (recovery_steps backportRef second (?c # ?rest))"
    using draft_msg_steps by blast
  show ?thesis
    using cp c4 c5 m dr by (intro exI [of _ second]) simp
qed

lemmas draft_defs = git_defs demo_defs config_defs invoke_def logf_def CreatePR_def
  makeNewPullRequest_def replacePlaceholders_def string_defs

text \<open>
  The claim as stated fails twice. The conflict here is at index 1, and the message
  still has the reset; and the branch it fetches is the backport branch, not the
  target branch \<open>v1\<close>.
\<close>

theorem cherryPick_draft_conflict_counterexample:
  "[''c1'', ''c2''] ! 1 = ''c2''
   \<and> calls (snd (cherryPick
        (demo_host (demo_pr 2 []) (demo_commit ''abc123'' [''p1'', ''p2''] []) [] []
           (git_conflict ''c2''))
        (demo_config ''draft'' ''skip'') (demo_pr 2 []) ''v1'' ''backport-42-to-v1''
        [''c1'', ''c2''] s0))
     = [Exec_git [''cherry-pick'', ''--empty=drop'', ''--allow-empty'', ''-x'', ''c1'', ''c1''],
        Exec_git [''cherry-pick'', ''--empty=drop'', ''--allow-empty'', ''-x'', ''c2'', ''c2''],
        Exec_git [''commit'', ''--all'', ''--message'',
                  ''Backport commit with conflicts, needs manual resolution''],
        Exec_git [''cherry-pick'', ''--abort''],
        Exec_git [''push'', ''--set-upstream'', ''origin'', ''backport-42-to-v1''],
        PullRequests_Create ''acme'' ''widgets''
          \<lparr>np_Title = ''[Backport v1] Fix'', np_Head = ''backport-42-to-v1'',
             np_Base = ''v1'', np_Body = ''Backport of #42'',
             np_MaintainerCanModify = True, np_Draft = True\<rparr>,
        Issues_CreateComment ''acme'' ''widgets'' 42
          (draft_msg ''c2'' ''v1'' ''backport-42-to-v1'' [''c2'']),
        Issues_CreateComment ''acme'' ''widgets'' 101
          (draft_msg ''c2'' ''v1'' ''backport-42-to-v1'' [''c2''])]
   \<and> names (draft_msg ''c2'' ''v1'' ''backport-42-to-v1'' [''c2'']) ''git reset --hard HEAD^''
   \<and> names (draft_msg ''c2'' ''v1'' ''backport-42-to-v1'' [''c2''])
         ''git fetch origin backport-42-to-v1''
   \<and> \<not> names (draft_msg ''c2'' ''v1'' ''backport-42-to-v1'' [''c2'']) ''git fetch origin v1''"
proof -
  have a: "names (draft_msg ''c2'' ''v1'' ''backport-42-to-v1'' [''c2'']) ''git reset --hard HEAD^''"
    unfolding names_def draft_msg_def listManualSteps_def manualSteps_def warning_sign_def
    by code_simp
  have b: "names (draft_msg ''c2'' ''v1'' ''backport-42-to-v1'' [''c2''])
             ''git fetch origin backport-42-to-v1''"
    unfolding names_def draft_msg_def listManualSteps_def manualSteps_def warning_sign_def
    by code_simp
  have c: "\<not> names (draft_msg ''c2'' ''v1'' ''backport-42-to-v1'' [''c2'']) ''git fetch origin v1''"
    unfolding names_def draft_msg_def listManualSteps_def manualSteps_def warning_sign_def
    by code_simp
  have d: "calls (snd (cherryPick
        (demo_host (demo_pr 2 []) (demo_commit ''abc123'' [''p1'', ''p2''] []) [] []
           (git_conflict ''c2''))
        (demo_config ''draft'' ''skip'') (demo_pr 2 []) ''v1'' ''backport-42-to-v1''
        [''c1'', ''c2''] s0))
     = [Exec_git [''cherry-pick'', ''--empty=drop'', ''--allow-empty'', ''-x'', ''c1'', ''c1''],
        Exec_git [''cherry-pick'', ''--empty=drop'', ''--allow-empty'', ''-x'', ''c2'', ''c2''],
        Exec_git [''commit'', ''--all'', ''--message'',
                  ''Backport commit with conflicts, needs manual resolution''],
        Exec_git [''cherry-pick'', ''--abort''],
        Exec_git [''push'', ''--set-upstream'', ''origin'', ''backport-42-to-v1''],
        PullRequests_Create ''acme'' ''widgets''
          \<lparr>np_Title = ''[Backport v1] Fix'', np_Head = ''backport-42-to-v1'',
             np_Base = ''v1'', np_Body = ''Backport of #42'',
             np_MaintainerCanModify = True, np_Draft = True\<rparr>,
        Issues_CreateComment ''acme'' ''widgets'' 42
          (draft_msg ''c2'' ''v1'' ''backport-42-to-v1'' [''c2'']),
        Issues_CreateComment ''acme'' ''widgets'' 101
          (draft_msg ''c2'' ''v1'' ''backport-42-to-v1'' [''c2''])]"
    by (simp add: draft_defs cherryPick_def ConflictHandlingAbort_def ConflictHandlingDraft_def
        CreateComment_def)
  from a b c d show ?thesis by simp
qed

theorem cherryPick_draft_conflict_witness:
  "\<exists>second.
     fst (cherryPick
        (demo_host (demo_pr 2 []) (demo_commit ''abc123'' [''p1'', ''p2''] []) [] []
           (git_conflict ''c2''))
        (demo_config ''draft'' ''skip'') (demo_pr 2 []) ''v1'' ''backport-42-to-v1''
        [''c1'', ''c2''] s0)
     = Some \<lparr>pr_Number = 101, pr_Merged = False, pr_MergeCommitSHA = [], pr_Commits = 0,
              pr_ChangedFiles = 0, pr_Labels = [], pr_Title = [], pr_Body = [], pr_Draft = False\<rparr>
   \<and> calls (snd (cherryPick
        (demo_host (demo_pr 2 []) (demo_commit ''abc123'' [''p1'', ''p2''] []) [] []
           (git_conflict ''c2''))
        (demo_config ''draft'' ''skip'') (demo_pr 2 []) ''v1'' ''backport-42-to-v1''
        [''c1'', ''c2''] s0))
     = [Exec_git [''cherry-pick'', ''--empty=drop'', ''--allow-empty'', ''-x'', ''c1'', ''c1''],
        Exec_git [''cherry-pick'', ''--empty=drop'', ''--allow-empty'', ''-x'', ''c2'', ''c2''],
        Exec_git [''commit'', ''--all'', ''--message'',
                  ''Backport commit with conflicts, needs manual resolution''],
        Exec_git [''cherry-pick'', ''--abort''],
        Exec_git [''push'', ''--set-upstream'', ''origin'', ''backport-42-to-v1''],
        PullRequests_Create ''acme'' ''widgets''
          \<lparr>np_Title = ''[Backport v1] Fix'', np_Head = ''backport-42-to-v1'',
             np_Base = ''v1'', np_Body = ''Backport of #42'',
             np_MaintainerCanModify = True, np_Draft = True\<rparr>,
        Issues_CreateComment ''acme'' ''widgets'' 42
          (recovery_msg ''c2'' ''v1'' (recovery_steps ''backport-42-to-v1'' second [''c2''])),
        Issues_CreateComment ''acme'' ''widgets'' 101
          (recovery_msg ''c2'' ''v1'' (recovery_steps ''backport-42-to-v1'' second [''c2'']))]"
proof -
  let ?h = "demo_host (demo_pr 2 []) (demo_commit ''abc123'' [''p1'', ''p2''] []) [] []
              (git_conflict ''c2'')"
  let ?cfg = "demo_config ''draft'' ''skip''"
  let ?si = "the (clean_picks ?h ''v1'' [''c1''] s0)"
  let ?err = "Wrap (''failed to cherry-pick commits '' @ fmt_v [''c2''])
                (ErrGitOp ''git cherry-pick --empty=drop --allow-empty -x c2 c2''
                   (Opaque ''exit status 1'') 1)"
  let ?s1 = "snd (CherryPick ?h True [''c2''] ?si)"
  let ?w = "logf Warning
              ''Conflict occurred while cherry-picking commit %s to branch %s, trying to prepare for manual backport.''
              [S ([''c1'', ''c2''] ! 1), S ''v1''] ?s1"
  let ?s2 = "snd (Push ?h ''backport-42-to-v1'' ?w)"
  let ?new = "makeNewPullRequest ?cfg (demo_pr 2 []) ''v1'' ''backport-42-to-v1'' True"
  let ?pr = "\<lparr>pr_Number = 101, pr_Merged = False, pr_MergeCommitSHA = [], pr_Commits = 0,
              pr_ChangedFiles = 0, pr_Labels = [], pr_Title = [], pr_Body = [], pr_Draft = False\<rparr>"
  let ?s3 = "snd (CreatePR ?h ?new ?s2)"
  have 1: "ConflictHandling ?cfg = ConflictHandlingDraft"
    by (simp add: demo_config_def ConflictHandlingDraft_def)
  have 2: "1 < length [''c1'', ''c2'']"
    by simp
  have 3: "clean_picks ?h ''v1'' (take 1 [''c1'', ''c2'']) s0 = Some ?si"
    by (simp add: draft_defs)
  have 4: "CherryPick ?h True [[''c1'', ''c2''] ! 1] ?si = (Some ?err, ?s1)"
    by (simp add: draft_defs)
  have 5: "IsConflictErr ?err"
    by simp
  have 6: "Push ?h ''backport-42-to-v1'' ?w = (None, ?s2)"
    by (simp add: draft_defs)
  have 7: "CreatePR ?h ?new ?s2 = (Inr ?pr, ?s3)"
    by (simp add: draft_defs)
  have 8: "calls ?s3
     = [Exec_git [''cherry-pick'', ''--empty=drop'', ''--allow-empty'', ''-x'', ''c1'', ''c1''],
        Exec_git [''cherry-pick'', ''--empty=drop'', ''--allow-empty'', ''-x'', ''c2'', ''c2''],
        Exec_git [''commit'', ''--all'', ''--message'',
                  ''Backport commit with conflicts, needs manual resolution''],
        Exec_git [''cherry-pick'', ''--abort''],
        Exec_git [''push'', ''--set-upstream'', ''origin'', ''backport-42-to-v1''],
        PullRequests_Create ''acme'' ''widgets''
          \<lparr>np_Title = ''[Backport v1] Fix'', np_Head = ''backport-42-to-v1'',
             np_Base = ''v1'', np_Body = ''Backport of #42'',
             np_MaintainerCanModify = True, np_Draft = True\<rparr>]"
    by (simp add: draft_defs)
  from cherryPick_draft_conflict [OF 1 2 3 4 5 6 7] obtain second where
    "fst (cherryPick ?h ?cfg (demo_pr 2 []) ''v1'' ''backport-42-to-v1'' [''c1'', ''c2''] s0) = Some ?pr"
    "calls (snd (cherryPick ?h ?cfg (demo_pr 2 []) ''v1'' ''backport-42-to-v1'' [''c1'', ''c2''] s0))
     = calls ?s3 @
       [Issues_CreateComment (fst (ctx_Repo ?h)) (snd (ctx_Repo ?h)) (pr_Number (demo_pr 2 []))
          (recovery_msg ([''c1'', ''c2''] ! 1) ''v1''
             (recovery_steps ''backport-42-to-v1'' second (drop 1 [''c1'', ''c2'']))),
        Issues_CreateComment (fst (ctx_Repo ?h)) (snd (ctx_Repo ?h)) (pr_Number ?pr)
          (recovery_msg ([''c1'', ''c2''] ! 1) ''v1''
             (recovery_steps ''backport-42-to-v1'' second (drop 1 [''c1'', ''c2''])))]"
    by blast
  then show ?thesis
    unfolding 8 by (intro exI [of _ second]) (simp add: demo_host_def demo_pr_def)
qed

subsection \<open>The report of a run\<close>

lemma backportTargets_created:
  "backportTargets h config n pr commits labels targets prList refList s
   = ((prList @ concat (map pr_line (fst (created h config n pr commits labels targets s))),
       refList @ map ref_item (fst (created h config n pr commits labels targets s))),
      snd (created h config n pr commits labels targets s))"
proof (induction targets arbitrary: prList refList s)
  case Nil
  then show ?case by simp
next
  case (Cons t ts)
  show ?case
    by (simp add: Cons.IH attempt_def pr_line_def ref_item_def case_prod_beta
        split: option.splits)
qed

lemma sublist_context:
  assumes "sublist x ys"
  shows "sublist x (ps @ ys @ ss)"
proof -
  obtain a b where "ys = a @ x @ b"
    using assms by (auto simp: sublist_def)
  then have "ps @ ys @ ss = (ps @ a) @ x @ (b @ ss)"
    by simp
  then show ?thesis
    unfolding sublist_def by blast
qed

lemma sublist_Join: "x \<in> set xs \<Longrightarrow> sublist x (Join xs sep)"
proof (induction xs sep rule: Join.induct)
  case (1 sep)
  then show ?case by simp
next
  case (2 x sep)
  then show ?case by simp
next
  case (3 y z zs sep)
  show ?case
  proof (cases "x = y")
    case True
    then show ?thesis by simp
  next
    case False
    then have "sublist x (Join (z # zs) sep)" using 3 by simp
    then have "sublist x ((y @ sep) @ Join (z # zs) sep @ [])"
      by (rule sublist_context)
    then show ?thesis by simp
  qed
qed

lemma sublist_concat: "x \<in> set xs \<Longrightarrow> sublist x (concat xs)"
proof (induction xs)
  case Nil
  then show ?case by simp
next
  case (Cons y ys)
  show ?case
  proof (cases "x = y")
    case True
    then show ?thesis by simp
  next
    case False
    then have "sublist x (concat ys)" using Cons by simp
    then have "sublist x (y @ concat ys @ [])"
      by (rule sublist_context)
    then show ?thesis by simp
  qed
qed

lemma successBody_names:
  assumes "(t, p) \<in> set made"
  shows "names (successBody (map ref_item made) (concat (map pr_line made))) t"
    and "names (successBody (map ref_item made) (concat (map pr_line made)))
           (''#'' @ itoa (pr_Number p))"
proof -
  let ?refs = "Join (map ref_item made) '', ''"
  let ?prs = "concat (map pr_line made)"
  let ?head = "''Successfully created backport PR(s) onto the following branch(es): ''"
  have "sublist t (''`'' @ t @ ''`'')"
    by (rule sublist_appendI)
  then have "sublist t (ref_item (t, p))"
    by (simp add: ref_item_def)
  moreover have "sublist (ref_item (t, p)) ?refs"
    using assms by (intro sublist_Join) force
  ultimately have "sublist t ?refs"
    by (rule sublist_order.order_trans)
  then have "sublist t (?head @ ?refs @ (''\<newline>\<newline>---\<newline>'' @ ?prs))"
    by (rule sublist_context)
  then show "names (successBody (map ref_item made) ?prs) t"
    by (simp add: names_def successBody_def)
  have "sublist (''#'' @ itoa (pr_Number p)) (''- '' @ (''#'' @ itoa (pr_Number p)) @ ''\<newline>'')"
    by (rule sublist_appendI)
  then have "sublist (''#'' @ itoa (pr_Number p)) (pr_line (t, p))"
    by (simp add: pr_line_def)
  moreover have "sublist (pr_line (t, p)) ?prs"
    using assms by (intro sublist_concat) force
  ultimately have "sublist (''#'' @ itoa (pr_Number p)) ?prs"
    by (rule sublist_order.order_trans)
  then have "sublist (''#'' @ itoa (pr_Number p))
               ((?head @ ?refs @ ''\<newline>\<newline>---\<newline>'') @ ?prs @ [])"
    by (rule sublist_context)
  then show "names (successBody (map ref_item made) ?prs) (''#'' @ itoa (pr_Number p))"
    by (simp add: names_def successBody_def)
qed

text \<open>
  Claim C8, as amended. \<open>Run\<close> has guards before the loop over the target branches:
  it returns with no comment when \<open>getTargetRefs\<close> gives no target, and it posts a
  comment of its own when no commit is left to replay. When a run reaches the loop (the
  pull request is merged, there is a target, the merge kind and the commits are
  determined, and the selection of commits is not empty once the merge commits are
  dealt with), then after the loop \<open>Run\<close> makes exactly one more call, a comment on
  the source pull request, and returns. With \<open>made\<close> the targets
  whose attempt gave a pull request, draft ones included, each with that pull request:
  the comment is the "nothing created" one when \<open>made\<close> is empty, and otherwise the
  summary, which names the branch and the number of the pull request of every entry
  of \<open>made\<close>.
\<close>

theorem Run_summary:
  assumes "event_pr_number h = Inr n"
    and "GetPR h n s = (Inr pr, s1)"
    and "pr_Merged pr"
    and "getTargetRefs h config pr s1 = (targets, s2)"
    and "targets \<noteq> []"
    and "MergeKind h pr s2 = Some (Inr mk, s3)"
    and "selectCommits h n pr mk s3 = Some (Inr commitSHAs, s4)"
    and "filterMergeCommits h config n commitSHAs s4 = (Inr kept, s5)"
    and "kept \<noteq> []"
    and "getLabelsToAdd config pr s5 = (labelsToAdd, s6)"
    and "created h config n pr kept labelsToAdd targets s6 = (made, s7)"
  shows "\<exists>r s8. Run h config s = Some (Returned r, s8)
    \<and> calls s8 = calls s7 @
         [Issues_CreateComment (fst (ctx_Repo h)) (snd (ctx_Repo h)) n
            (if made = [] then nothing_created_body
             else successBody (map ref_item made) (concat (map pr_line made)))]
    \<and> (\<forall>tp \<in> set made.
          names (successBody (map ref_item made) (concat (map pr_line made))) (fst tp)
          \<and> names (successBody (map ref_item made) (concat (map pr_line made)))
                (''#'' @ itoa (pr_Number (snd tp))))"
proof -
  let ?prList = "concat (map pr_line made)"
  let ?refList = "map ref_item made"
  have bt: "backportTargets h config n pr kept labelsToAdd targets [] [] s6
            = ((?prList, ?refList), s7)"
    using assms(11) by (simp add: backportTargets_created)
  have run: "Run h config s = Some (report h n ?prList ?refList s7)"
    using assms(1-10) bt by (simp add: Run_def)
  obtain r s8 where rep: "report h n ?prList ?refList s7 = (Returned r, s8)"
    by (cases "made = []") (auto simp: report_def case_prod_beta)
  have "calls s8 = calls s7 @
         [Issues_CreateComment (fst (ctx_Repo h)) (snd (ctx_Repo h)) n
            (if made = [] then nothing_created_body else successBody ?refList ?prList)]"
    using rep by (cases "made = []") (auto simp: report_def case_prod_beta CreateComment_calls)
  moreover have "\<forall>tp \<in> set made.
          names (successBody ?refList ?prList) (fst tp)
          \<and> names (successBody ?refList ?prList) (''#'' @ itoa (pr_Number (snd tp)))"
    using successBody_names by force
  ultimately show ?thesis
    using run rep by simp
qed

lemmas run_defs = github_defs client_defs git_defs backport_defs demo_defs config_defs string_defs
  attempt_def

text \<open>
  The claim as stated, for every run, fails at the guards. In the first run the merged
  pull request has no label that matches the pattern: no attempt is made, \<open>Run\<close>
  returns nil after the one request for the pull request and posts no comment. In the
  second the only selected commit is reported as a merge commit and removed: no
  attempt is made, and the one comment is the "no commits" one, which is not the
  "nothing created" one.
\<close>

theorem Run_summary_counterexample:
  "map_option (\<lambda>(r, s). (r, calls s))
     (Run (demo_host (demo_pr 1 [''bug'']) (demo_commit ''abc123'' [''p1''] []) [] [] git_ok)
        (demo_config ''abort'' ''skip'') s0)
   = Some (Returned None, [PullRequests_Get ''acme'' ''widgets'' 42])
   \<and> map_option (\<lambda>(r, s). (r, calls s))
     (Run (demo_host (demo_pr 1 [''backport-to-v1'']) (demo_commit ''abc123'' [''p1''] []) [] []
             (git_merges ''abc123''))
        (demo_config ''abort'' ''skip'') s0)
   = Some (Returned None,
           [PullRequests_Get ''acme'' ''widgets'' 42,
            Exec_git [''fetch'', ''--depth'', ''2'', ''origin'', ''v1''],
            Repositories_GetCommit ''acme'' ''widgets'' ''abc123'',
            Exec_git [''rev-list'', ''--reverse'', ''--merges'', ''abc123^..abc123''],
            Issues_CreateComment ''acme'' ''widgets'' 42 no_commits_body])
   \<and> no_commits_body \<noteq> nothing_created_body"
proof -
  have "no_commits_body \<noteq> nothing_created_body"
    by (simp add: no_commits_body_def nothing_created_body_def)
  then show ?thesis
    by (simp add: run_defs)
qed

theorem Run_summary_witness:
  "(\<exists>r s8.
      Run (demo_host (demo_pr 2 [''backport-to-v1'']) (demo_commit ''abc123'' [''p1'', ''p2''] []) []
             [demo_commit ''c1'' [''p1''] [], demo_commit ''c2'' [''c1''] []] (git_conflict ''c2''))
          (demo_config ''draft'' ''skip'') s0 = Some (Returned r, s8)
      \<and> last (calls s8) = Issues_CreateComment ''acme'' ''widgets'' 42
                              (successBody [''`v1`''] ''- #101\<newline>'')
      \<and> names (successBody [''`v1`''] ''- #101\<newline>'') ''v1''
      \<and> names (successBody [''`v1`''] ''- #101\<newline>'') ''#101'')
   \<and> (\<exists>r s8.
      Run (demo_host (demo_pr 2 [''backport-to-v1'']) (demo_commit ''abc123'' [''p1'', ''p2''] []) []
             [demo_commit ''c1'' [''p1''] [], demo_commit ''c2'' [''c1''] []] (git_conflict ''c2''))
          (demo_config ''abort'' ''skip'') s0 = Some (Returned r, s8)
      \<and> last (calls s8) = Issues_CreateComment ''acme'' ''widgets'' 42 nothing_created_body)"
proof -
  let ?pr = "demo_pr 2 [''backport-to-v1'']"
  let ?mc = "demo_commit ''abc123'' [''p1'', ''p2''] []"
  let ?h = "demo_host ?pr ?mc [] [demo_commit ''c1'' [''p1''] [], demo_commit ''c2'' [''c1''] []]
              (git_conflict ''c2'')"
  let ?new = "\<lparr>pr_Number = 101, pr_Merged = False, pr_MergeCommitSHA = [], pr_Commits = 0,
               pr_ChangedFiles = 0, pr_Labels = [], pr_Title = [], pr_Body = [], pr_Draft = False\<rparr>"
  have 1: "event_pr_number ?h = Inr 42"
    by (simp add: demo_defs)
  let ?s1 = "snd (GetPR ?h 42 s0)"
  have 2: "GetPR ?h 42 s0 = (Inr ?pr, ?s1)"
    by (simp add: run_defs)
  have 3: "pr_Merged ?pr"
    by (simp add: demo_defs)
  have 5: "[''v1''] \<noteq> []" and 9: "[''c1'', ''c2''] \<noteq> []"
    by simp_all
  have stages_draft: "\<exists>s2 s3 s4 s5 s6.
      getTargetRefs ?h (demo_config ''draft'' ''skip'') ?pr ?s1 = ([''v1''], s2)
      \<and> MergeKind ?h ?pr s2 = Some (Inr MergeCommit, s3)
      \<and> selectCommits ?h 42 ?pr MergeCommit s3 = Some (Inr [''c1'', ''c2''], s4)
      \<and> filterMergeCommits ?h (demo_config ''draft'' ''skip'') 42 [''c1'', ''c2''] s4
          = (Inr [''c1'', ''c2''], s5)
      \<and> getLabelsToAdd (demo_config ''draft'' ''skip'') ?pr s5 = ([], s6)
      \<and> fst (created ?h (demo_config ''draft'' ''skip'') 42 ?pr [''c1'', ''c2''] [] [''v1''] s6)
          = [(''v1'', ?new)]"
    by (simp add: run_defs)
  have stages_abort: "\<exists>s2 s3 s4 s5 s6.
      getTargetRefs ?h (demo_config ''abort'' ''skip'') ?pr ?s1 = ([''v1''], s2)
      \<and> MergeKind ?h ?pr s2 = Some (Inr MergeCommit, s3)
      \<and> selectCommits ?h 42 ?pr MergeCommit s3 = Some (Inr [''c1'', ''c2''], s4)
      \<and> filterMergeCommits ?h (demo_config ''abort'' ''skip'') 42 [''c1'', ''c2''] s4
          = (Inr [''c1'', ''c2''], s5)
      \<and> getLabelsToAdd (demo_config ''abort'' ''skip'') ?pr s5 = ([], s6)
      \<and> fst (created ?h (demo_config ''abort'' ''skip'') 42 ?pr [''c1'', ''c2''] [] [''v1''] s6)
          = []"
    by (simp add: run_defs)
  have draft: "\<exists>r s8. Run ?h (demo_config ''draft'' ''skip'') s0 = Some (Returned r, s8)
      \<and> last (calls s8) = Issues_CreateComment ''acme'' ''widgets'' 42
                              (successBody [''`v1`''] ''- #101\<newline>'')
      \<and> names (successBody [''`v1`''] ''- #101\<newline>'') ''v1''
      \<and> names (successBody [''`v1`''] ''- #101\<newline>'') ''#101''"
  proof -
    from stages_draft obtain s2 s3 s4 s5 s6 where
      4: "getTargetRefs ?h (demo_config ''draft'' ''skip'') ?pr ?s1 = ([''v1''], s2)"
      and 6: "MergeKind ?h ?pr s2 = Some (Inr MergeCommit, s3)"
      and 7: "selectCommits ?h 42 ?pr MergeCommit s3 = Some (Inr [''c1'', ''c2''], s4)"
      and 8: "filterMergeCommits ?h (demo_config ''draft'' ''skip'') 42 [''c1'', ''c2''] s4
              = (Inr [''c1'', ''c2''], s5)"
      and 10: "getLabelsToAdd (demo_config ''draft'' ''skip'') ?pr s5 = ([], s6)"
      and m: "fst (created ?h (demo_config ''draft'' ''skip'') 42 ?pr [''c1'', ''c2''] [] [''v1''] s6)
              = [(''v1'', ?new)]"
      by auto
    let ?s7 = "snd (created ?h (demo_config ''draft'' ''skip'') 42 ?pr [''c1'', ''c2''] [] [''v1''] s6)"
    have 11: "created ?h (demo_config ''draft'' ''skip'') 42 ?pr [''c1'', ''c2''] [] [''v1''] s6
              = ([(''v1'', ?new)], ?s7)"
      using m by (simp add: prod_eq_iff)
    from Run_summary [OF 1 2 3 4 5 6 7 8 9 10 11] show ?thesis
      by (auto simp: demo_host_def ref_item_def pr_line_def string_defs)
  qed
  have abort: "\<exists>r s8. Run ?h (demo_config ''abort'' ''skip'') s0 = Some (Returned r, s8)
      \<and> last (calls s8) = Issues_CreateComment ''acme'' ''widgets'' 42 nothing_created_body"
  proof -
    from stages_abort obtain s2 s3 s4 s5 s6 where
      4: "getTargetRefs ?h (demo_config ''abort'' ''skip'') ?pr ?s1 = ([''v1''], s2)"
      and 6: "MergeKind ?h ?pr s2 = Some (Inr MergeCommit, s3)"
      and 7: "selectCommits ?h 42 ?pr MergeCommit s3 = Some (Inr [''c1'', ''c2''], s4)"
      and 8: "filterMergeCommits ?h (demo_config ''abort'' ''skip'') 42 [''c1'', ''c2''] s4
              = (Inr [''c1'', ''c2''], s5)"
      and 10: "getLabelsToAdd (demo_config ''abort'' ''skip'') ?pr s5 = ([], s6)"
      and m: "fst (created ?h (demo_config ''abort'' ''skip'') 42 ?pr [''c1'', ''c2''] [] [''v1''] s6)
              = []"
      by auto
    let ?s7 = "snd (created ?h (demo_config ''abort'' ''skip'') 42 ?pr [''c1'', ''c2''] [] [''v1''] s6)"
    have 11: "created ?h (demo_config ''abort'' ''skip'') 42 ?pr [''c1'', ''c2''] [] [''v1''] s6
              = ([], ?s7)"
      using m by (simp add: prod_eq_iff)
    from Run_summary [OF 1 2 3 4 5 6 7 8 9 10 11] show ?thesis
      by (auto simp: demo_host_def)
  qed
  from draft abort show ?thesis by blast
qed

end
